theory Spec2Isabelle
  imports Complex_Main "HOL-Library.Word"
begin

section \<open>Conventions of the embedding\<close>

text \<open>
  The development embeds the mesh operator kernel, the picking kernel and the sculpt
  engine of zModel.

  \<^item> A JavaScript \<open>number\<close> that holds a coordinate is a \<open>real\<close>: rounding, NaN and
    the infinities of IEEE-754 are not represented. Where the source starts a search
    with \<open>Infinity\<close>, the running minimum is a \<open>real option\<close> and \<open>None\<close> is
    \<open>Infinity\<close>.
  \<^item> A \<open>Float32Array\<close> is a \<open>real list\<close>, read with \<open>!\<close>. A read past the end
    (\<open>undefined\<close> in the source) is left unspecified, so nothing is proved about it.
  \<^item> The \<open>Uint16Array\<close> index buffer of length \<open>3T\<close> is a list of \<open>T\<close> triples
    of 16-bit words; the source reads it three entries at a time. Building one from a
    \<open>number[]\<close> wraps every entry modulo \<open>65536\<close> and turns \<open>undefined\<close> into 0.
  \<^item> A \<open>number\<close> that is used as a vertex index in an ordinary array
    (edges, faces, scratch index lists) is a \<open>nat option\<close>: \<open>None\<close> stands for
    \<open>undefined\<close> and for \<open>NaN\<close>.
  \<^item> \<open>Material\<close> is opaque to the kernel and is a type parameter.
\<close>

section \<open>Data model\<close>

datatype vec3 = Vec3 (vx: real) (vy: real) (vz: real)

type_synonym idx = "nat option"

datatype edge = Edge (ea: idx) (eb: idx)

record face =
  fvertices :: "idx list"
  fnormal :: vec3

record transform3D =
  position :: vec3
  rotation :: vec3
  scale :: vec3

type_synonym tri16 = "16 word \<times> 16 word \<times> 16 word"

record editableGeometry =
  gid :: string
  vertices :: "real list"
  normals :: "real list"
  uvs :: "real list"
  indices :: "tri16 list"
  vertexCount :: nat
  edges :: "edge list"
  faces :: "face list"

record 'm editableMesh =
  meshId :: string
  name :: string
  geometry :: editableGeometry
  material :: 'm
  transform :: transform3D
  visible :: bool
  locked :: bool
  parentId :: "string option"

subsection \<open>Vector helpers\<close>

definition vec3Add :: "vec3 \<Rightarrow> vec3 \<Rightarrow> vec3" where
  "vec3Add p q = Vec3 (vx p + vx q) (vy p + vy q) (vz p + vz q)"

definition vec3Sub :: "vec3 \<Rightarrow> vec3 \<Rightarrow> vec3" where
  "vec3Sub p q = Vec3 (vx p - vx q) (vy p - vy q) (vz p - vz q)"

definition vec3Scale :: "vec3 \<Rightarrow> real \<Rightarrow> vec3" where
  "vec3Scale v s = Vec3 (vx v * s) (vy v * s) (vz v * s)"

definition vec3Dot :: "vec3 \<Rightarrow> vec3 \<Rightarrow> real" where
  "vec3Dot p q = vx p * vx q + vy p * vy q + vz p * vz q"

definition vec3Cross :: "vec3 \<Rightarrow> vec3 \<Rightarrow> vec3" where
  "vec3Cross p q =
     Vec3 (vy p * vz q - vz p * vy q) (vz p * vx q - vx p * vz q) (vx p * vy q - vy p * vx q)"

definition vec3Length :: "vec3 \<Rightarrow> real" where
  "vec3Length v = sqrt (vx v * vx v + vy v * vy v + vz v * vz v)"

definition vec3Normalize :: "vec3 \<Rightarrow> vec3" where
  "vec3Normalize v =
     (let len = sqrt (vx v * vx v + vy v * vy v + vz v * vz v)
      in if len = 0 then Vec3 0 0 0 else Vec3 (vx v / len) (vy v / len) (vz v / len))"

definition vec3Lerp :: "vec3 \<Rightarrow> vec3 \<Rightarrow> real \<Rightarrow> vec3" where
  "vec3Lerp p q t =
     Vec3 (vx p + (vx q - vx p) * t) (vy p + (vy q - vy p) * t) (vz p + (vz q - vz p) * t)"

text \<open>The vertex \<open>i\<close> of a packed coordinate buffer: entries \<open>3i\<close>, \<open>3i+1\<close>, \<open>3i+2\<close>.\<close>

definition vertexAt :: "real list \<Rightarrow> nat \<Rightarrow> vec3" where
  "vertexAt vs i = Vec3 (vs ! (i * 3)) (vs ! (i * 3 + 1)) (vs ! (i * 3 + 2))"

section \<open>Picking\<close>

definition transformPoint :: "vec3 \<Rightarrow> transform3D \<Rightarrow> vec3" where
  "transformPoint p t =
     (let r0 = Vec3 (vx p * vx (scale t)) (vy p * vy (scale t)) (vz p * vz (scale t));
          cosX = cos (vx (rotation t)); sinX = sin (vx (rotation t));
          r1 = Vec3 (vx r0) (vy r0 * cosX - vz r0 * sinX) (vy r0 * sinX + vz r0 * cosX);
          cosY = cos (vy (rotation t)); sinY = sin (vy (rotation t));
          r2 = Vec3 (vx r1 * cosY + vz r1 * sinY) (vy r1) (- vx r1 * sinY + vz r1 * cosY);
          cosZ = cos (vz (rotation t)); sinZ = sin (vz (rotation t));
          r3 = Vec3 (vx r2 * cosZ - vy r2 * sinZ) (vx r2 * sinZ + vy r2 * cosZ) (vz r2)
      in vec3Add r3 (position t))"

text \<open>\<open>d < closestDist\<close>, where \<open>None\<close> is \<open>Infinity\<close>.\<close>

definition closer :: "real \<Rightarrow> real option \<Rightarrow> bool" where
  "closer d best = (case best of None \<Rightarrow> True | Some c \<Rightarrow> d < c)"

text \<open>
  \<open>findClosestVertex\<close>: the loop state is \<open>(closestIdx, closestDist)\<close>, started at
  \<open>(0, Infinity)\<close>; the loop runs over \<open>i = 0, \<dots>, vertexCount - 1\<close>.
\<close>

definition closestStep :: "'m editableMesh \<Rightarrow> vec3 \<Rightarrow> nat \<times> real option \<Rightarrow> nat \<Rightarrow> nat \<times> real option" where
  "closestStep mesh pt st i =
     (let v = vertexAt (vertices (geometry mesh)) i;
          tv = transformPoint v (transform mesh);
          d = vec3Length (vec3Sub tv pt)
      in if closer d (snd st) then (i, Some d) else st)"

definition findClosestVertex :: "'m editableMesh \<Rightarrow> vec3 \<Rightarrow> nat" where
  "findClosestVertex mesh pt =
     fst (foldl (closestStep mesh pt) (0, None) [0..<vertexCount (geometry mesh)])"

subsection \<open>Ray casting\<close>

record ray =
  origin :: vec3
  direction :: vec3

record raycastHit =
  hitMeshId :: string
  distance :: real
  point :: vec3
  faceIndex :: nat
  vertexIndex :: "nat option"

definition rayEPSILON :: real where
  "rayEPSILON = 0.000001"

text \<open>
  \<open>rayTriangleIntersect\<close> (Moller-Trumbore). The source returns
  \<open>{hit, distance, point}\<close> with \<open>hit = false\<close> and \<open>distance = Infinity\<close> on
  a miss; here a miss is \<open>None\<close> and a hit is \<open>Some (distance, point)\<close>.
\<close>

definition rayTriangleIntersect :: "ray \<Rightarrow> vec3 \<Rightarrow> vec3 \<Rightarrow> vec3 \<Rightarrow> (real \<times> vec3) option" where
  "rayTriangleIntersect r v0 v1 v2 =
     (let edge1 = vec3Sub v1 v0;
          edge2 = vec3Sub v2 v0;
          h = vec3Cross (direction r) edge2;
          a = vec3Dot edge1 h
      in if a > - rayEPSILON \<and> a < rayEPSILON then None
         else
           let f = 1 / a;
               s = vec3Sub (origin r) v0;
               u = f * vec3Dot s h
           in if u < 0 \<or> u > 1 then None
              else
                let q = vec3Cross s edge1;
                    v = f * vec3Dot (direction r) q
                in if v < 0 \<or> u + v > 1 then None
                   else
                     let t = f * vec3Dot edge2 q
                     in if t > rayEPSILON
                        then Some (t, vec3Add (origin r) (vec3Scale (direction r) t))
                        else None)"

text \<open>The intersection test of one triangle of a mesh, its corners moved to world space.\<close>

definition triangleHit :: "ray \<Rightarrow> 'm editableMesh \<Rightarrow> tri16 \<Rightarrow> (real \<times> vec3) option" where
  "triangleHit r mesh tri =
     (case tri of (i0, i1, i2) \<Rightarrow>
        let vs = vertices (geometry mesh);
            tv0 = transformPoint (vertexAt vs (unat i0)) (transform mesh);
            tv1 = transformPoint (vertexAt vs (unat i1)) (transform mesh);
            tv2 = transformPoint (vertexAt vs (unat i2)) (transform mesh)
        in rayTriangleIntersect r tv0 tv1 tv2)"

text \<open>
  One round of the triangle loop of \<open>raycastMesh\<close>. The state is
  \<open>(closestHit, closestDist)\<close>; the triangle comes with its number \<open>floor (i / 3)\<close>.
\<close>

definition raycastMeshStep ::
  "ray \<Rightarrow> 'm editableMesh \<Rightarrow> raycastHit option \<times> real option \<Rightarrow> nat \<times> tri16
     \<Rightarrow> raycastHit option \<times> real option" where
  "raycastMeshStep r mesh st it =
     (case triangleHit r mesh (snd it) of
        None \<Rightarrow> st
      | Some (d, p) \<Rightarrow>
          if closer d (snd st)
          then (Some \<lparr>hitMeshId = meshId mesh, distance = d, point = p,
                       faceIndex = fst it, vertexIndex = None\<rparr>, Some d)
          else st)"

definition raycastMesh :: "ray \<Rightarrow> 'm editableMesh \<Rightarrow> raycastHit option" where
  "raycastMesh r mesh =
     (if \<not> visible mesh then None
      else fst (foldl (raycastMeshStep r mesh) (None, None)
                  (enumerate 0 (indices (geometry mesh)))))"

definition raycastStep ::
  "ray \<Rightarrow> raycastHit option \<times> real option \<Rightarrow> 'm editableMesh
     \<Rightarrow> raycastHit option \<times> real option" where
  "raycastStep r st mesh =
     (case raycastMesh r mesh of
        None \<Rightarrow> st
      | Some hit \<Rightarrow>
          if closer (distance hit) (snd st) then (Some hit, Some (distance hit)) else st)"

definition raycast :: "ray \<Rightarrow> 'm editableMesh list \<Rightarrow> raycastHit option" where
  "raycast r meshes = fst (foldl (raycastStep r) (None, None) meshes)"

text \<open>
  A hit record reports a triangle of the mesh: it carries the mesh's id, the number of
  one of its triangles, and the distance and point the intersection test gives there.
\<close>

definition meshHitOK :: "ray \<Rightarrow> 'm editableMesh \<Rightarrow> raycastHit \<Rightarrow> bool" where
  "meshHitOK r m h =
     (hitMeshId h = meshId m \<and> faceIndex h < length (indices (geometry m)) \<and>
      triangleHit r m (indices (geometry m) ! faceIndex h) = Some (distance h, point h))"

text \<open>
  The shape of the state of both search loops: nothing found yet, or a hit with the
  property \<open>P\<close> together with its own distance.
\<close>

definition loopState :: "(raycastHit \<Rightarrow> bool) \<Rightarrow> raycastHit option \<times> real option \<Rightarrow> bool" where
  "loopState P st = (st = (None, None) \<or> (\<exists>h. st = (Some h, Some (distance h)) \<and> P h))"

section \<open>Derived data: edges and faces\<close>

text \<open>
  Every operator ends with the same two loops over its final \<open>number[]\<close> of indices.
  The scratch index list is a list of triples of \<open>idx\<close>, one triple for each three
  entries pushed.
\<close>

type_synonym itri = "idx \<times> idx \<times> idx"

definition someTri :: "nat \<times> nat \<times> nat \<Rightarrow> itri" where
  "someTri t = (case t of (p, q, r) \<Rightarrow> (Some p, Some q, Some r))"

text \<open>Reading a triple of the \<open>Uint16Array\<close> gives three numbers.\<close>

definition readTri :: "tri16 \<Rightarrow> nat \<times> nat \<times> nat" where
  "readTri t = (case t of (p, q, r) \<Rightarrow> (unat p, unat q, unat r))"

text \<open>
  \<open>new Uint16Array(numbers)\<close>: a number is taken modulo \<open>2^16\<close>, \<open>undefined\<close>
  and \<open>NaN\<close> become 0.
\<close>

definition toUint16 :: "idx \<Rightarrow> 16 word" where
  "toUint16 i = (case i of None \<Rightarrow> 0 | Some n \<Rightarrow> of_nat n)"

definition toUint16Array :: "itri list \<Rightarrow> tri16 list" where
  "toUint16Array ts = map (\<lambda>(p, q, r). (toUint16 p, toUint16 q, toUint16 r)) ts"

text \<open>\<open>Math.min\<close> and \<open>Math.max\<close>: \<open>NaN\<close> as soon as one argument is not a number.\<close>

definition mathMin :: "idx \<Rightarrow> idx \<Rightarrow> idx" where
  "mathMin p q = (case p of None \<Rightarrow> None | Some m \<Rightarrow> (case q of None \<Rightarrow> None | Some n \<Rightarrow> Some (min m n)))"

definition mathMax :: "idx \<Rightarrow> idx \<Rightarrow> idx" where
  "mathMax p q = (case p of None \<Rightarrow> None | Some m \<Rightarrow> (case q of None \<Rightarrow> None | Some n \<Rightarrow> Some (max m n)))"

text \<open>
  The edge loop. The state is \<open>(edgeSet, edges)\<close>. The key \<open>`${a}-${b}`\<close> of the
  source is the pair \<open>(a, b)\<close>: two pairs of numbers print the same string only when
  they are equal.
\<close>

definition addEdge :: "(idx \<times> idx) set \<times> edge list \<Rightarrow> idx \<Rightarrow> idx \<Rightarrow> (idx \<times> idx) set \<times> edge list" where
  "addEdge st p q =
     (let lo = mathMin p q; hi = mathMax p q; key = (lo, hi)
      in if key \<in> fst st then st else (insert key (fst st), snd st @ [Edge lo hi]))"

definition addTriEdges :: "(idx \<times> idx) set \<times> edge list \<Rightarrow> itri \<Rightarrow> (idx \<times> idx) set \<times> edge list" where
  "addTriEdges st t =
     (case t of (t0, t1, t2) \<Rightarrow> addEdge (addEdge (addEdge st t0 t1) t1 t2) t2 t0)"

definition rebuildEdges :: "itri list \<Rightarrow> edge list" where
  "rebuildEdges ts = snd (foldl addTriEdges ({}, []) ts)"

text \<open>
  The face loop: one face for each triangle, its normal read from the normal buffer at
  the triangle's first index.
\<close>

definition rebuildFaces :: "real list \<Rightarrow> itri list \<Rightarrow> face list" where
  "rebuildFaces ns ts =
     map (\<lambda>(t0, t1, t2). \<lparr>fvertices = [t0, t1, t2], fnormal = vertexAt ns (the t0)\<rparr>) ts"

text \<open>
  The canonical edge set of an index buffer: the unordered pairs of vertices that are
  sides of a triangle, each written with the smaller index first.
\<close>

definition sidesOf :: "tri16 \<Rightarrow> (nat \<times> nat) list" where
  "sidesOf t =
     (case readTri t of (p, q, r) \<Rightarrow>
        [(min p q, max p q), (min q r, max q r), (min r p, max r p)])"

definition canonicalEdgeSet :: "tri16 list \<Rightarrow> (nat \<times> nat) set" where
  "canonicalEdgeSet ts = set (concat (map sidesOf ts))"

text \<open>
  The edge invariant of the data model: the edge list has no entry twice, every entry
  is a pair of numbers, and the pairs are exactly the canonical edge set of the index
  buffer.
\<close>

definition edgePair :: "edge \<Rightarrow> (nat \<times> nat) option" where
  "edgePair e =
     (case ea e of None \<Rightarrow> None | Some p \<Rightarrow> (case eb e of None \<Rightarrow> None | Some q \<Rightarrow> Some (p, q)))"

definition edgesCanonical :: "editableGeometry \<Rightarrow> bool" where
  "edgesCanonical g =
     (distinct (edges g) \<and> None \<notin> set (map edgePair (edges g)) \<and>
      set (map edgePair (edges g)) = Some ` canonicalEdgeSet (indices g))"

section \<open>Subdivide\<close>

record subdivideOptions =
  iterations :: "nat option"
  smooth :: "bool option"

text \<open>
  The buffers \<open>newVertices\<close>, \<open>newNormals\<close>, \<open>newUvs\<close> and the midpoint map that
  \<open>getMidpoint\<close> closes over.
\<close>

record subdivState =
  sVertices :: "real list"
  sNormals :: "real list"
  sUvs :: "real list"
  midpointMap :: "nat \<times> nat \<rightharpoonup> nat"

definition getEdgeKey :: "nat \<Rightarrow> nat \<Rightarrow> nat \<times> nat" where
  "getEdgeKey p q = (min p q, max p q)"

definition getMidpoint :: "subdivState \<Rightarrow> nat \<Rightarrow> nat \<Rightarrow> subdivState \<times> nat" where
  "getMidpoint st p q =
     (let key = getEdgeKey p q
      in case midpointMap st key of
           Some midIdx \<Rightarrow> (st, midIdx)
         | None \<Rightarrow>
             let midIdx = length (sVertices st) div 3;
                 va = vertexAt (sVertices st) p;
                 vb = vertexAt (sVertices st) q;
                 na = vertexAt (sNormals st) p;
                 nb = vertexAt (sNormals st) q;
                 midPos = vec3Lerp va vb 0.5;
                 midNormal = vec3Normalize (vec3Lerp na nb 0.5);
                 midU = (sUvs st ! (p * 2) + sUvs st ! (q * 2)) / 2;
                 midV = (sUvs st ! (p * 2 + 1) + sUvs st ! (q * 2 + 1)) / 2
             in (st\<lparr>sVertices := sVertices st @ [vx midPos, vy midPos, vz midPos],
                     sNormals := sNormals st @ [vx midNormal, vy midNormal, vz midNormal],
                     sUvs := sUvs st @ [midU, midV],
                     midpointMap := (midpointMap st)(key \<mapsto> midIdx)\<rparr>, midIdx))"

text \<open>One round of the triangle loop: three midpoints, four triangles pushed.\<close>

definition splitTriangle ::
  "subdivState \<times> (nat \<times> nat \<times> nat) list \<Rightarrow> tri16 \<Rightarrow> subdivState \<times> (nat \<times> nat \<times> nat) list" where
  "splitTriangle acc t =
     (case readTri t of (v0, v1, v2) \<Rightarrow>
        let (st1, m01) = getMidpoint (fst acc) v0 v1;
            (st2, m12) = getMidpoint st1 v1 v2;
            (st3, m20) = getMidpoint st2 v2 v0
        in (st3, snd acc @ [(v0, m01, m20), (m01, v1, m12), (m20, m12, v2), (m01, m12, m20)]))"

text \<open>
  The neighbour map of the smoothing pass. A JavaScript \<open>Set\<close> keeps insertion order
  and no duplicates, so it is a list that an element joins only once.
\<close>

definition setAdd :: "nat list \<Rightarrow> nat \<Rightarrow> nat list" where
  "setAdd s n = (if n \<in> set s then s else s @ [n])"

definition addNeighbors :: "(nat \<rightharpoonup> nat list) \<Rightarrow> nat \<Rightarrow> nat \<Rightarrow> nat \<Rightarrow> (nat \<rightharpoonup> nat list)" where
  "addNeighbors m v n1 n2 =
     (let s = (case m v of None \<Rightarrow> [] | Some s \<Rightarrow> s)
      in m(v \<mapsto> setAdd (setAdd s n1) n2))"

definition triNeighbors :: "(nat \<rightharpoonup> nat list) \<Rightarrow> nat \<times> nat \<times> nat \<Rightarrow> (nat \<rightharpoonup> nat list)" where
  "triNeighbors m t =
     (case t of (t0, t1, t2) \<Rightarrow>
        addNeighbors (addNeighbors (addNeighbors m t0 t1 t2) t1 t2 t0) t2 t0 t1)"

definition smoothedPosition :: "real list \<Rightarrow> (nat \<rightharpoonup> nat list) \<Rightarrow> nat \<Rightarrow> vec3" where
  "smoothedPosition nv nbrs i =
     (case nbrs i of
        None \<Rightarrow> vertexAt nv i
      | Some ns \<Rightarrow>
          if length ns = 0 then vertexAt nv i
          else
            let s = foldl (\<lambda>acc n. vec3Add acc (vertexAt nv n)) (Vec3 0 0 0) ns;
                avg = vec3Scale s (1 / real (length ns));
                current = vertexAt nv i
            in vec3Lerp current avg 0.25)"

text \<open>
  A write \<open>xs[i] = v\<close> to an ordinary array: past the end the array grows, and the
  holes it leaves hold no number (an unspecified real here).
\<close>

definition arraySet :: "real list \<Rightarrow> nat \<Rightarrow> real \<Rightarrow> real list" where
  "arraySet xs i v =
     (if i < length xs then xs[i := v] else xs @ replicate (i - length xs) undefined @ [v])"

definition applySmoothed :: "real list \<Rightarrow> nat \<times> vec3 \<Rightarrow> real list" where
  "applySmoothed nv ip =
     (case ip of (i, p) \<Rightarrow>
        arraySet (arraySet (arraySet nv (i * 3) (vx p)) (i * 3 + 1) (vy p)) (i * 3 + 2) (vz p))"

definition smoothVertices :: "real list \<Rightarrow> (nat \<times> nat \<times> nat) list \<Rightarrow> nat \<Rightarrow> real list" where
  "smoothVertices nv newIndices oldVertexCount =
     (let nbrs = foldl triNeighbors Map.empty newIndices;
          smoothedPositions = map (smoothedPosition nv nbrs) [0..<oldVertexCount]
      in foldl applySmoothed nv (zip [0..<oldVertexCount] smoothedPositions))"

definition subdivideOnce :: "'m editableMesh \<Rightarrow> bool \<Rightarrow> 'm editableMesh" where
  "subdivideOnce mesh sm =
     (let g = geometry mesh;
          st0 = \<lparr>sVertices = vertices g, sNormals = normals g, sUvs = uvs g,
                 midpointMap = Map.empty\<rparr>;
          (st, newIndices) = foldl splitTriangle (st0, []) (indices g);
          newVertices = (if sm then smoothVertices (sVertices st) newIndices (vertexCount g)
                         else sVertices st);
          its = map someTri newIndices
      in mesh\<lparr>geometry :=
           \<lparr>gid = gid g,
            vertices = newVertices,
            normals = sNormals st,
            uvs = sUvs st,
            indices = toUint16Array its,
            vertexCount = length newVertices div 3,
            edges = rebuildEdges its,
            faces = rebuildFaces (sNormals st) its\<rparr>\<rparr>)"

text \<open>
  \<open>subdivide\<close>: \<open>iterations\<close> defaults to 1 and \<open>smooth\<close> to \<open>false\<close>; the loop
  runs the pass \<open>iterations\<close> times.
\<close>

definition subdivide :: "'m editableMesh \<Rightarrow> subdivideOptions \<Rightarrow> 'm editableMesh" where
  "subdivide mesh options =
     (let n = (case iterations options of None \<Rightarrow> 1 | Some k \<Rightarrow> k);
          sm = (case smooth options of None \<Rightarrow> False | Some s \<Rightarrow> s)
      in ((\<lambda>result. subdivideOnce result sm) ^^ n) mesh)"

section \<open>Extrude\<close>

datatype jsError = TypeError | RangeError

record extrudeOptions =
  extrudeDistance :: real
  useNormals :: "bool option"

text \<open>
  \<open>Map.set\<close> on an insertion-ordered map: a known key keeps its place and takes the
  new value, a new key goes to the end.
\<close>

fun mapSet :: "('k \<times> 'v) list \<Rightarrow> 'k \<Rightarrow> 'v \<Rightarrow> ('k \<times> 'v) list" where
  "mapSet [] k v = [(k, v)]"
| "mapSet (p # ps) k v = (if fst p = k then (k, v) # ps else p # mapSet ps k v)"

definition idxSetAdd :: "idx list \<Rightarrow> idx \<Rightarrow> idx list" where
  "idxSetAdd s n = (if n \<in> set s then s else s @ [n])"

text \<open>
  First loop: the faces that exist among \<open>selectedFaces\<close> go to \<open>faceMap\<close>, their
  vertices to \<open>selectedVertices\<close>. \<open>geometry.faces[faceIdx]\<close> is \<open>undefined\<close> past
  the end and the entry is skipped.
\<close>

definition collectFace ::
  "face list \<Rightarrow> (nat \<times> face) list \<times> idx list \<Rightarrow> nat \<Rightarrow> (nat \<times> face) list \<times> idx list" where
  "collectFace fs acc faceIdx =
     (if faceIdx < length fs
      then (mapSet (fst acc) faceIdx (fs ! faceIdx),
            foldl idxSetAdd (snd acc) (fvertices (fs ! faceIdx)))
      else acc)"

text \<open>Second loop: one new vertex for every selected vertex.\<close>

record extrudeBuffers =
  eVertices :: "real list"
  eNormals :: "real list"
  eUvs :: "real list"
  vertexMapping :: "idx \<rightharpoonup> nat"
  newVertexIndex :: nat

definition cloneVertex ::
  "editableGeometry \<Rightarrow> real \<Rightarrow> bool \<Rightarrow> vec3 \<Rightarrow> extrudeBuffers \<Rightarrow> idx \<Rightarrow> extrudeBuffers" where
  "cloneVertex g d useN avgNormal bufs oldIdx =
     (let v = vertexAt (vertices g) (the oldIdx);
          normal = (if useN then vec3Normalize (vertexAt (normals g) (the oldIdx)) else avgNormal);
          offset = vec3Scale normal d
      in bufs\<lparr>eVertices := eVertices bufs @ [vx v + vx offset, vy v + vy offset, vz v + vz offset],
              eNormals := eNormals bufs @ [vx normal, vy normal, vz normal],
              eUvs := eUvs bufs @ [uvs g ! (the oldIdx * 2), uvs g ! (the oldIdx * 2 + 1)],
              vertexMapping := (vertexMapping bufs)(oldIdx \<mapsto> newVertexIndex bufs),
              newVertexIndex := newVertexIndex bufs + 1\<rparr>)"

text \<open>\<open>vertexMapping.get(v) ?? v\<close>.\<close>

definition mapped :: "(idx \<rightharpoonup> nat) \<Rightarrow> idx \<Rightarrow> idx" where
  "mapped vm v = (case vm v of Some n \<Rightarrow> Some n | None \<Rightarrow> v)"

text \<open>
  Third loop, for one selected face: the face's entry is replaced and every triangle
  whose three indices all occur in the face is moved to the new vertices.
  \<open>faceMap.get(faceIdx)!\<close> is \<open>undefined\<close> for a face index that the first loop
  skipped, and reading \<open>face.vertices\<close> then throws.
\<close>

definition remapTriangle :: "(idx \<rightharpoonup> nat) \<Rightarrow> face \<Rightarrow> itri \<Rightarrow> itri" where
  "remapTriangle vm f t =
     (case t of (t0, t1, t2) \<Rightarrow>
        if t0 \<in> set (fvertices f) \<and> t1 \<in> set (fvertices f) \<and> t2 \<in> set (fvertices f)
        then (mapped vm t0, mapped vm t1, mapped vm t2)
        else t)"

definition remapFace ::
  "(nat \<times> face) list \<Rightarrow> (idx \<rightharpoonup> nat) \<Rightarrow> jsError + (face list \<times> itri list) \<Rightarrow> nat
     \<Rightarrow> jsError + (face list \<times> itri list)" where
  "remapFace faceMap vm acc faceIdx =
     (case acc of
        Inl e \<Rightarrow> Inl e
      | Inr (newFaces, newIndices) \<Rightarrow>
          (case map_of faceMap faceIdx of
             None \<Rightarrow> Inl TypeError
           | Some f \<Rightarrow>
               Inr (newFaces[faceIdx := f\<lparr>fvertices := map (mapped vm) (fvertices f)\<rparr>],
                    map (remapTriangle vm f) newIndices)))"

text \<open>
  Boundary edges: the sides of a selected face that no other selected face has, in
  either direction.
\<close>

definition faceSides :: "face \<Rightarrow> (idx \<times> idx) list" where
  "faceSides f =
     map (\<lambda>i. (fvertices f ! i, fvertices f ! ((i + 1) mod length (fvertices f))))
       [0..<length (fvertices f)]"

definition isShared :: "(nat \<times> face) list \<Rightarrow> nat list \<Rightarrow> nat \<Rightarrow> idx \<times> idx \<Rightarrow> bool" where
  "isShared faceMap selectedFaces faceIdx s =
     list_ex (\<lambda>otherFaceIdx.
        otherFaceIdx \<noteq> faceIdx \<and>
        list_ex (\<lambda>os. (fst s = fst os \<and> snd s = snd os) \<or> (fst s = snd os \<and> snd s = fst os))
          (faceSides (the (map_of faceMap otherFaceIdx))))
       selectedFaces"

definition boundaryEdgesOf :: "(nat \<times> face) list \<Rightarrow> nat list \<Rightarrow> (idx \<times> idx) list" where
  "boundaryEdgesOf faceMap selectedFaces =
     concat (map (\<lambda>faceIdx.
        filter (\<lambda>s. \<not> isShared faceMap selectedFaces faceIdx s)
          (faceSides (the (map_of faceMap faceIdx))))
       selectedFaces)"

text \<open>Last loop: a side quad for every boundary edge.\<close>

definition addSide ::
  "real list \<Rightarrow> (idx \<rightharpoonup> nat) \<Rightarrow> itri list \<times> edge list \<times> face list \<Rightarrow> idx \<times> idx
     \<Rightarrow> itri list \<times> edge list \<times> face list" where
  "addSide nv vm acc s =
     (case acc of (newIndices, newEdges, newFaces) \<Rightarrow>
        let p = fst s; q = snd s;
            newA = vm p; newB = vm q;
            edgeVec = vec3Sub (vertexAt nv (the q)) (vertexAt nv (the p));
            upVec = vec3Sub (vertexAt nv (the newA)) (vertexAt nv (the p));
            faceNormal = vec3Normalize (vec3Cross edgeVec upVec)
        in (newIndices @ [(p, q, newB), (p, newB, newA)],
            newEdges @ [Edge p newA, Edge q newB],
            newFaces @ [\<lparr>fvertices = [p, q, newB, newA], fnormal = faceNormal\<rparr>]))"

definition extrude ::
  "'m editableMesh \<Rightarrow> nat list \<Rightarrow> extrudeOptions \<Rightarrow> jsError + 'm editableMesh" where
  "extrude mesh selectedFaces options =
     (if length selectedFaces = 0 then Inr mesh
      else
        let amount = extrudeDistance options;
            useN = (case useNormals options of None \<Rightarrow> True | Some u \<Rightarrow> u);
            g = geometry mesh;
            (faceMap, selectedVertices) = foldl (collectFace (faces g)) ([], []) selectedFaces;
            avgNormal = vec3Normalize
              (foldl (\<lambda>acc kf. vec3Add acc (fnormal (snd kf))) (Vec3 0 0 0) faceMap);
            bufs = foldl (cloneVertex g amount useN avgNormal)
              \<lparr>eVertices = vertices g, eNormals = normals g, eUvs = uvs g,
               vertexMapping = Map.empty, newVertexIndex = vertexCount g\<rparr> selectedVertices;
            vm = vertexMapping bufs
        in case foldl (remapFace faceMap vm)
                  (Inr (faces g, map (someTri \<circ> readTri) (indices g))) selectedFaces of
             Inl e \<Rightarrow> Inl e
           | Inr (newFaces0, newIndices0) \<Rightarrow>
               (case foldl (addSide (eVertices bufs) vm) (newIndices0, edges g, newFaces0)
                       (boundaryEdgesOf faceMap selectedFaces) of
                  (newIndices, newEdges, newFaces) \<Rightarrow>
                    Inr (mesh\<lparr>geometry :=
                      \<lparr>gid = gid g,
                       vertices = eVertices bufs,
                       normals = eNormals bufs,
                       uvs = eUvs bufs,
                       indices = toUint16Array newIndices,
                       vertexCount = length (eVertices bufs) div 3,
                       edges = newEdges,
                       faces = newFaces\<rparr>\<rparr>)))"

section \<open>Loop cut\<close>

record loopCutOptions =
  numberOfCuts :: "nat option"
  smoothness :: "real option"

text \<open>\<open>xs[k]\<close> on an ordinary array of numbers: \<open>undefined\<close> past the end.\<close>

definition elemAt :: "nat list \<Rightarrow> nat \<Rightarrow> idx" where
  "elemAt xs k = (if k < length xs then Some (xs ! k) else None)"

text \<open>\<open>xs[xs.length - 1]\<close>: \<open>undefined\<close> on the empty array.\<close>

definition atLast :: "nat list \<Rightarrow> idx" where
  "atLast xs = (if xs = [] then None else Some (last xs))"

record loopCutBuffers =
  lVertices :: "real list"
  lNormals :: "real list"
  lUvs :: "real list"
  edgeVertexMap :: "nat \<times> nat \<rightharpoonup> nat list"

text \<open>The cut vertex number \<open>i\<close> of \<open>k\<close> on the edge from \<open>p\<close> to \<open>q\<close>.\<close>

definition addCutVertex ::
  "editableGeometry \<Rightarrow> nat \<Rightarrow> nat \<Rightarrow> nat \<Rightarrow> loopCutBuffers \<times> nat list \<Rightarrow> nat
     \<Rightarrow> loopCutBuffers \<times> nat list" where
  "addCutVertex g k p q acc i =
     (let bufs = fst acc;
          t = real i / real (k + 1);
          newIdx = length (lVertices bufs) div 3;
          pos = vec3Lerp (vertexAt (vertices g) p) (vertexAt (vertices g) q) t;
          normal = vec3Normalize (vec3Lerp (vertexAt (normals g) p) (vertexAt (normals g) q) t);
          u = uvs g ! (p * 2) + (uvs g ! (q * 2) - uvs g ! (p * 2)) * t;
          v = uvs g ! (p * 2 + 1) + (uvs g ! (q * 2 + 1) - uvs g ! (p * 2 + 1)) * t
      in (bufs\<lparr>lVertices := lVertices bufs @ [vx pos, vy pos, vz pos],
               lNormals := lNormals bufs @ [vx normal, vy normal, vz normal],
               lUvs := lUvs bufs @ [u, v]\<rparr>,
          snd acc @ [newIdx]))"

definition cutEdge :: "editableGeometry \<Rightarrow> nat \<Rightarrow> loopCutBuffers \<Rightarrow> nat \<times> nat \<Rightarrow> loopCutBuffers" where
  "cutEdge g k bufs e =
     (case e of (p, q) \<Rightarrow>
        let edgeKey = (min p q, max p q);
            (bufs', newVerts) = foldl (addCutVertex g k p q) (bufs, []) [1..<k + 1]
        in bufs'\<lparr>edgeVertexMap := (edgeVertexMap bufs')(edgeKey \<mapsto> newVerts)\<rparr>)"

text \<open>
  The cut edges of a triangle, as \<open>(edge, newVerts)\<close>. An edge counts as cut as soon as
  the map has an entry for it: the entry is an array, and an array is truthy even when
  it is empty.
\<close>

definition cutEdgesOf ::
  "(nat \<times> nat \<rightharpoonup> nat list) \<Rightarrow> nat \<times> nat \<times> nat \<Rightarrow> ((nat \<times> nat) \<times> nat list) list" where
  "cutEdgesOf em t =
     (case t of (t0, t1, t2) \<Rightarrow>
        concat (map (\<lambda>(p, q).
            case em (min p q, max p q) of
              None \<Rightarrow> []
            | Some edgeNewVerts \<Rightarrow> [((p, q), if p < q then edgeNewVerts else rev edgeNewVerts)])
          [(t0, t1), (t1, t2), (t2, t0)]))"

text \<open>One cut edge: a fan from the opposite vertex \<open>c\<close>.\<close>

definition fanTriangles :: "nat \<times> nat \<times> nat \<Rightarrow> (nat \<times> nat) \<times> nat list \<Rightarrow> itri list" where
  "fanTriangles t ce =
     (case t of (t0, t1, t2) \<Rightarrow>
        case ce of ((p, q), newVerts) \<Rightarrow>
          let c = List.find (\<lambda>v. v \<noteq> p \<and> v \<noteq> q) [t0, t1, t2]
          in [(c, Some p, elemAt newVerts 0)] @
             map (\<lambda>k. (c, elemAt newVerts k, elemAt newVerts (k + 1))) [0..<length newVerts - 1] @
             [(c, atLast newVerts, Some q)])"

text \<open>Two cut edges: a tip triangle, a strip of quads and a base band.\<close>

definition stripTriangles ::
  "nat \<Rightarrow> nat \<times> nat \<times> nat \<Rightarrow> (nat \<times> nat) \<times> nat list \<Rightarrow> (nat \<times> nat) \<times> nat list \<Rightarrow> itri list" where
  "stripTriangles k t cut1 cut2 =
     (case t of (t0, t1, t2) \<Rightarrow>
        let e1 = fst cut1; e2 = fst cut2
        in case List.find (\<lambda>v. (v = fst e1 \<or> v = snd e1) \<and> (v = fst e2 \<or> v = snd e2))
                  [t0, t1, t2] of
             None \<Rightarrow> [someTri t]
           | Some sharedIdx \<Rightarrow>
               let other1 = (if fst e1 = sharedIdx then snd e1 else fst e1);
                   other2 = (if fst e2 = sharedIdx then snd e2 else fst e2);
                   newVerts1 = (if fst e1 = sharedIdx then snd cut1 else rev (snd cut1));
                   newVerts2 = (if fst e2 = sharedIdx then snd cut2 else rev (snd cut2))
               in [(Some sharedIdx, elemAt newVerts1 0, elemAt newVerts2 0)] @
                  concat (map (\<lambda>j. [(elemAt newVerts1 j, elemAt newVerts1 (j + 1), elemAt newVerts2 j),
                                     (elemAt newVerts2 j, elemAt newVerts1 (j + 1), elemAt newVerts2 (j + 1))])
                            [0..<k - 1]) @
                  [(atLast newVerts1, Some other1, Some other2),
                   (atLast newVerts1, Some other2, atLast newVerts2)])"

definition cutTriangle :: "nat \<Rightarrow> (nat \<times> nat \<rightharpoonup> nat list) \<Rightarrow> nat \<times> nat \<times> nat \<Rightarrow> itri list" where
  "cutTriangle k em t =
     (let cutEdges = cutEdgesOf em t
      in if length cutEdges = 0 then [someTri t]
         else if length cutEdges = 2 then stripTriangles k t (cutEdges ! 0) (cutEdges ! 1)
         else if length cutEdges = 1 then fanTriangles t (cutEdges ! 0)
         else [someTri t])"

definition loopCut :: "'m editableMesh \<Rightarrow> (nat \<times> nat) list \<Rightarrow> loopCutOptions \<Rightarrow> 'm editableMesh" where
  "loopCut mesh selectedEdges options =
     (if length selectedEdges = 0 then mesh
      else
        let k = (case numberOfCuts options of None \<Rightarrow> 1 | Some n \<Rightarrow> n);
            g = geometry mesh;
            bufs = foldl (cutEdge g k)
                     \<lparr>lVertices = vertices g, lNormals = normals g, lUvs = uvs g,
                      edgeVertexMap = Map.empty\<rparr> selectedEdges;
            newIndices = concat (map (cutTriangle k (edgeVertexMap bufs) \<circ> readTri) (indices g))
        in mesh\<lparr>geometry :=
             \<lparr>gid = gid g,
              vertices = lVertices bufs,
              normals = lNormals bufs,
              uvs = lUvs bufs,
              indices = toUint16Array newIndices,
              vertexCount = length (lVertices bufs) div 3,
              edges = rebuildEdges newIndices,
              faces = rebuildFaces (lNormals bufs) newIndices\<rparr>\<rparr>)"

section \<open>Sculpt engine\<close>

datatype brushType = Grab | Smooth | Clay | Crease | Inflate | Flatten | Pinch

datatype brushFalloff = FalloffSmooth | FalloffSharp | FalloffLinear | FalloffConstant

record brushSettings =
  brushKind :: brushType
  radius :: real
  strength :: real
  falloff :: brushFalloff
  invert :: bool
  autoSmooth :: real

record sculptBrush =
  settings :: brushSettings
  isActive :: bool
  lastPosition :: "vec3 option"
  accumulatedDelta :: vec3

text \<open>
  The engine's fields. \<open>engineMesh\<close> is the bound mesh, whose vertex and normal
  buffers the engine writes in place; \<open>originalVertices\<close> is the engine's own copy
  (\<open>new Float32Array(...)\<close>), which no write to the mesh reaches.
\<close>

record 'm sculptEngine =
  engineMesh :: "'m editableMesh option"
  originalVertices :: "real list option"
  brush :: sculptBrush
  symmetryX :: bool
  symmetryY :: bool
  symmetryZ :: bool

definition calculateFalloff :: "real \<Rightarrow> real \<Rightarrow> brushFalloff \<Rightarrow> real" where
  "calculateFalloff d r f =
     (let t = max 0 (min 1 (d / r))
      in case f of
           FalloffSmooth \<Rightarrow> 1 - (3 * t * t - 2 * t * t * t)
         | FalloffSharp \<Rightarrow> (1 - t) ^ 3
         | FalloffLinear \<Rightarrow> 1 - t
         | FalloffConstant \<Rightarrow> (if t < 1 then 1 else 0))"

text \<open>\<open>getAffectedVertices\<close>: the vertices within the radius, as \<open>(index, distance)\<close>.\<close>

definition getAffectedVertices :: "vec3 \<Rightarrow> real list \<Rightarrow> real \<Rightarrow> (nat \<times> real) list" where
  "getAffectedVertices hitPoint vs r =
     concat (map (\<lambda>i.
         let v = vertexAt vs i;
             dx = vx v - vx hitPoint; dy = vy v - vy hitPoint; dz = vz v - vz hitPoint;
             distSq = dx * dx + dy * dy + dz * dz
         in if distSq \<le> r * r then [(i, sqrt distSq)] else [])
       [0..<length vs div 3])"

definition calculateSmoothOffset :: "real list \<Rightarrow> edge list \<Rightarrow> nat \<Rightarrow> real \<Rightarrow> vec3" where
  "calculateSmoothOffset vs es vi weight =
     (let neighbors = concat (map (\<lambda>e.
              (if ea e = Some vi then [eb e] else []) @
              (if eb e = Some vi then [ea e] else [])) es)
      in if length neighbors = 0 then Vec3 0 0 0
         else
           let s = foldl (\<lambda>acc n. vec3Add acc (vertexAt vs (the n))) (Vec3 0 0 0) neighbors;
               k = real (length neighbors);
               v = vertexAt vs vi
           in Vec3 ((vx s / k - vx v) * weight) ((vy s / k - vy v) * weight)
                ((vz s / k - vz v) * weight))"

definition calculateFlattenOffset ::
  "real list \<Rightarrow> real list \<Rightarrow> nat \<Rightarrow> vec3 \<Rightarrow> (nat \<times> real) list \<Rightarrow> real \<Rightarrow> vec3" where
  "calculateFlattenOffset vs ns vi hitPoint affected weight =
     (let avgNormal = vec3Normalize
            (foldl (\<lambda>acc ad. vec3Add acc (vertexAt ns (fst ad))) (Vec3 0 0 0) affected);
          toVertex = vec3Sub (vertexAt vs vi) hitPoint;
          d = vec3Dot toVertex avgNormal
      in vec3Scale avgNormal (- d * weight))"

text \<open>
  One round of the loop of \<open>applyBrush\<close>: the offset of one affected vertex, added to
  its three coordinates in the vertex buffer (a \<open>Float32Array\<close>: its length is fixed).
\<close>

definition applyBrushStep ::
  "brushSettings \<Rightarrow> real list \<Rightarrow> edge list \<Rightarrow> vec3 \<Rightarrow> vec3 \<Rightarrow> real \<Rightarrow> (nat \<times> real) list
     \<Rightarrow> real list \<Rightarrow> nat \<times> real \<Rightarrow> real list" where
  "applyBrushStep s ns es hitPoint delta sgnv affected vs ad =
     (let i = fst ad;
          weight = calculateFalloff (snd ad) (radius s) (falloff s) * strength s * sgnv;
          v = vertexAt vs i;
          n = vertexAt ns i;
          offset =
            (case brushKind s of
               Grab \<Rightarrow> vec3Scale delta weight
             | Smooth \<Rightarrow> calculateSmoothOffset vs es i weight
             | Clay \<Rightarrow> vec3Scale n (weight * (radius s * 0.3))
             | Crease \<Rightarrow>
                 vec3Add (vec3Scale (vec3Sub hitPoint v) (weight * 0.3 * 0.5))
                         (vec3Scale n (- (weight * 0.3) * 0.5))
             | Inflate \<Rightarrow> vec3Scale n (weight * radius s * 0.2)
             | Flatten \<Rightarrow> calculateFlattenOffset vs ns i hitPoint affected weight
             | Pinch \<Rightarrow> vec3Scale (vec3Sub hitPoint v) (weight * 0.2))
      in vs[i * 3 := vx v + vx offset, i * 3 + 1 := vy v + vy offset,
            i * 3 + 2 := vz v + vz offset])"

text \<open>Writing the vertex buffer of the bound mesh.\<close>

definition setVertices :: "'m editableMesh \<Rightarrow> real list \<Rightarrow> 'm editableMesh" where
  "setVertices m vs = m\<lparr>geometry := (geometry m)\<lparr>vertices := vs\<rparr>\<rparr>"

definition setNormals :: "'m editableMesh \<Rightarrow> real list \<Rightarrow> 'm editableMesh" where
  "setNormals m ns = m\<lparr>geometry := (geometry m)\<lparr>normals := ns\<rparr>\<rparr>"

definition applyBrush :: "'m sculptEngine \<Rightarrow> vec3 \<Rightarrow> vec3 \<Rightarrow> real \<Rightarrow> 'm sculptEngine" where
  "applyBrush e hitPoint delta sgnv =
     (case engineMesh e of
        None \<Rightarrow> e
      | Some m \<Rightarrow>
          let s = settings (brush e);
              vs = vertices (geometry m);
              affected = getAffectedVertices hitPoint vs (radius s);
              vs' = foldl (applyBrushStep s (normals (geometry m)) (edges (geometry m))
                             hitPoint delta sgnv affected) vs affected
          in e\<lparr>engineMesh := Some (setVertices m vs')\<rparr>)"

definition beginStroke :: "'m sculptEngine \<Rightarrow> vec3 \<Rightarrow> 'm sculptEngine" where
  "beginStroke e hitPoint =
     (let e1 = e\<lparr>brush := (brush e)\<lparr>isActive := True, lastPosition := Some hitPoint,
                                    accumulatedDelta := Vec3 0 0 0\<rparr>\<rparr>
      in case engineMesh e1 of
           None \<Rightarrow> e1
         | Some m \<Rightarrow> e1\<lparr>originalVertices := Some (vertices (geometry m))\<rparr>)"

definition updateStroke :: "'m sculptEngine \<Rightarrow> vec3 \<Rightarrow> vec3 \<Rightarrow> 'm sculptEngine" where
  "updateStroke e hitPoint delta =
     (if \<not> isActive (brush e) \<or> engineMesh e = None then e
      else
        let sgnv = (if invert (settings (brush e)) then - 1 else 1);
            e1 = applyBrush e hitPoint delta sgnv;
            e2 = (if symmetryX e1
                  then applyBrush e1 (Vec3 (- vx hitPoint) (vy hitPoint) (vz hitPoint))
                         (Vec3 (- vx delta) (vy delta) (vz delta)) sgnv
                  else e1);
            e3 = (if symmetryY e2
                  then applyBrush e2 (Vec3 (vx hitPoint) (- vy hitPoint) (vz hitPoint))
                         (Vec3 (vx delta) (- vy delta) (vz delta)) sgnv
                  else e2);
            e4 = (if symmetryZ e3
                  then applyBrush e3 (Vec3 (vx hitPoint) (vy hitPoint) (- vz hitPoint))
                         (Vec3 (vx delta) (vy delta) (- vz delta)) sgnv
                  else e3)
        in e4\<lparr>brush := (brush e4)\<lparr>lastPosition := Some hitPoint,
                 accumulatedDelta := vec3Add (accumulatedDelta (brush e4)) delta\<rparr>\<rparr>)"

text \<open>
  \<open>recalculateNormals\<close>: the normal buffer is cleared, every triangle adds its
  (unnormalised) face normal to its three corners, and every vertex normal of positive
  length is scaled to length one. A write past the end of a \<open>Float32Array\<close> is
  dropped, as \<open>xs[i := v]\<close> does.
\<close>

definition addFaceNormal :: "real list \<Rightarrow> real list \<Rightarrow> tri16 \<Rightarrow> real list" where
  "addFaceNormal vs ns t =
     (case readTri t of (i0, i1, i2) \<Rightarrow>
        let v0 = vertexAt vs i0; v1 = vertexAt vs i1; v2 = vertexAt vs i2;
            n = vec3Cross (vec3Sub v1 v0) (vec3Sub v2 v0)
        in foldl (\<lambda>acc i. acc[i * 3 := acc ! (i * 3) + vx n,
                                 i * 3 + 1 := acc ! (i * 3 + 1) + vy n,
                                 i * 3 + 2 := acc ! (i * 3 + 2) + vz n]) ns [i0, i1, i2])"

definition normalizeAt :: "real list \<Rightarrow> nat \<Rightarrow> real list" where
  "normalizeAt ns i =
     (let n = vertexAt ns i;
          len = sqrt (vx n * vx n + vy n * vy n + vz n * vz n)
      in if len > 0
         then ns[i * 3 := vx n / len, i * 3 + 1 := vy n / len, i * 3 + 2 := vz n / len]
         else ns)"

definition recalculateNormals :: "'m sculptEngine \<Rightarrow> 'm sculptEngine" where
  "recalculateNormals e =
     (case engineMesh e of
        None \<Rightarrow> e
      | Some m \<Rightarrow>
          let vs = vertices (geometry m);
              ns0 = replicate (length (normals (geometry m))) 0;
              ns1 = foldl (addFaceNormal vs) ns0 (indices (geometry m));
              ns2 = foldl normalizeAt ns1 [0..<length vs div 3]
          in e\<lparr>engineMesh := Some (setNormals m ns2)\<rparr>)"

text \<open>
  \<open>target.set(source)\<close> on typed arrays: a \<open>RangeError\<close> when the source is longer
  than the target, otherwise the source overwrites the front of the target.
\<close>

definition typedArraySet :: "real list \<Rightarrow> real list \<Rightarrow> jsError + real list" where
  "typedArraySet target source =
     (if length source > length target then Inl RangeError
      else Inr (source @ drop (length source) target))"

definition undoStroke :: "'m sculptEngine \<Rightarrow> jsError + 'm sculptEngine" where
  "undoStroke e =
     (case engineMesh e of
        None \<Rightarrow> Inr e
      | Some m \<Rightarrow>
          (case originalVertices e of
             None \<Rightarrow> Inr e
           | Some orig \<Rightarrow>
               (case typedArraySet (vertices (geometry m)) orig of
                  Inl err \<Rightarrow> Inl err
                | Inr vs \<Rightarrow> Inr (recalculateNormals (e\<lparr>engineMesh := Some (setVertices m vs)\<rparr>)))))"

text \<open>A stroke: \<open>beginStroke\<close>, then one \<open>updateStroke\<close> for every pointer move.\<close>

definition stroke :: "'m sculptEngine \<Rightarrow> vec3 \<Rightarrow> (vec3 \<times> vec3) list \<Rightarrow> 'm sculptEngine" where
  "stroke e hit moves = foldl (\<lambda>s hd. updateStroke s (fst hd) (snd hd)) (beginStroke e hit) moves"

text \<open>
  What holds of the engine throughout a stroke: the snapshot is \<open>orig\<close>, a mesh is
  bound, and its vertex buffer has the snapshot's length.
\<close>

definition strokeInv :: "real list \<Rightarrow> 'm sculptEngine \<Rightarrow> bool" where
  "strokeInv orig e =
     (originalVertices e = Some orig \<and>
      (\<exists>m. engineMesh e = Some m \<and> length (vertices (geometry m)) = length orig))"

text \<open>A fresh engine (the constructor's brush) bound to a mesh by \<open>setMesh\<close>.\<close>

definition newEngine :: "'m sculptEngine" where
  "newEngine =
     \<lparr>engineMesh = None, originalVertices = None,
      brush = \<lparr>settings = \<lparr>brushKind = Grab, radius = 0.5, strength = 1, falloff = FalloffSmooth,
                                invert = False, autoSmooth = 0\<rparr>,
               isActive = False, lastPosition = None, accumulatedDelta = Vec3 0 0 0\<rparr>,
      symmetryX = False, symmetryY = False, symmetryZ = False\<rparr>"

definition setMesh :: "'m sculptEngine \<Rightarrow> 'm editableMesh \<Rightarrow> 'm sculptEngine" where
  "setMesh e m = e\<lparr>engineMesh := Some m, originalVertices := Some (vertices (geometry m))\<rparr>"

section \<open>Decimate\<close>

datatype decimateMode = Collapse | Unsubdivide | Planar

datatype axis = AxisX | AxisY | AxisZ

record decimateOptions =
  ratio :: real
  mode :: decimateMode
  symmetry :: bool
  symmetryAxis :: axis

record quadric =
  qa :: real
  qb :: real
  qc :: real
  qd :: real
  qe :: real
  qf :: real
  qg :: real
  qh :: real
  qi :: real
  qj :: real

definition createQuadric :: quadric where
  "createQuadric = \<lparr>qa = 0, qb = 0, qc = 0, qd = 0, qe = 0, qf = 0, qg = 0, qh = 0, qi = 0, qj = 0\<rparr>"

definition quadricFromPlane :: "vec3 \<Rightarrow> real \<Rightarrow> quadric" where
  "quadricFromPlane n d =
     \<lparr>qa = vx n * vx n, qb = vx n * vy n, qc = vx n * vz n, qd = vx n * d,
      qe = vy n * vy n, qf = vy n * vz n, qg = vy n * d,
      qh = vz n * vz n, qi = vz n * d,
      qj = d * d\<rparr>"

definition addQuadric :: "quadric \<Rightarrow> quadric \<Rightarrow> quadric" where
  "addQuadric q1 q2 =
     \<lparr>qa = qa q1 + qa q2, qb = qb q1 + qb q2, qc = qc q1 + qc q2, qd = qd q1 + qd q2,
      qe = qe q1 + qe q2, qf = qf q1 + qf q2, qg = qg q1 + qg q2,
      qh = qh q1 + qh q2, qi = qi q1 + qi q2,
      qj = qj q1 + qj q2\<rparr>"

definition evaluateQuadric :: "quadric \<Rightarrow> vec3 \<Rightarrow> real" where
  "evaluateQuadric q v =
     qa q * vx v * vx v + 2 * qb q * vx v * vy v + 2 * qc q * vx v * vz v + 2 * qd q * vx v +
     qe q * vy v * vy v + 2 * qf q * vy v * vz v + 2 * qg q * vy v +
     qh q * vz v * vz v + 2 * qi q * vz v +
     qj q"

text \<open>The working copy of the mesh that the collapse loop changes in place.\<close>

record collapseState =
  cVertices :: "vec3 list"
  cFaces :: "(nat \<times> nat \<times> nat) list"
  cQuadrics :: "quadric list"
  cEdges :: "(nat \<times> nat) list"
  removedVertices :: "nat set"

text \<open>The plane quadric of a face is added to the quadrics of its three corners.\<close>

definition addFaceQuadric :: "vec3 list \<Rightarrow> quadric list \<Rightarrow> nat \<times> nat \<times> nat \<Rightarrow> quadric list" where
  "addFaceQuadric vs qs f =
     (case f of (i0, i1, i2) \<Rightarrow>
        let v0 = vs ! i0; v1 = vs ! i1; v2 = vs ! i2;
            n = vec3Normalize (vec3Cross (vec3Sub v1 v0) (vec3Sub v2 v0));
            d = - vec3Dot n v0;
            planeQ = quadricFromPlane n d;
            qs1 = qs[i0 := addQuadric (qs ! i0) planeQ];
            qs2 = qs1[i1 := addQuadric (qs1 ! i1) planeQ]
        in qs2[i2 := addQuadric (qs2 ! i2) planeQ])"

text \<open>The edge list of the working copy: pairs \<open>(min, max)\<close>, each once.\<close>

definition addCollapseEdge :: "(nat \<times> nat) list \<Rightarrow> nat \<Rightarrow> nat \<Rightarrow> (nat \<times> nat) list" where
  "addCollapseEdge es p q =
     (if (min p q, max p q) \<in> set es then es else es @ [(min p q, max p q)])"

definition addFaceEdges :: "(nat \<times> nat) list \<Rightarrow> nat \<times> nat \<times> nat \<Rightarrow> (nat \<times> nat) list" where
  "addFaceEdges es f =
     (case f of (i0, i1, i2) \<Rightarrow>
        addCollapseEdge (addCollapseEdge (addCollapseEdge es i0 i1) i1 i2) i2 i0)"

text \<open>
  The search for the best edge. The state is \<open>(bestError, bestEdge, bestPos)\<close>, with
  \<open>None\<close> for the start \<open>(Infinity, null, _)\<close>.
\<close>

definition considerEdge ::
  "collapseState \<Rightarrow> (real \<times> (nat \<times> nat) \<times> vec3) option \<Rightarrow> nat \<times> nat
     \<Rightarrow> (real \<times> (nat \<times> nat) \<times> vec3) option" where
  "considerEdge st best e =
     (case e of (v1, v2) \<Rightarrow>
        if v1 \<in> removedVertices st \<or> v2 \<in> removedVertices st then best
        else
          let q = addQuadric (cQuadrics st ! v1) (cQuadrics st ! v2);
              mid = vec3Scale (vec3Add (cVertices st ! v1) (cVertices st ! v2)) 0.5;
              err = evaluateQuadric q mid
          in if (case best of None \<Rightarrow> True | Some b \<Rightarrow> err < fst b)
             then Some (err, (v1, v2), mid)
             else best)"

definition findBestEdge :: "collapseState \<Rightarrow> (real \<times> (nat \<times> nat) \<times> vec3) option" where
  "findBestEdge st = foldl (considerEdge st) None (cEdges st)"

text \<open>
  The body of the loop after the search: \<open>v1\<close> moves, \<open>v2\<close> is removed, every face
  and edge trades \<open>v2\<close> for \<open>v1\<close>, and the faces and edges that have become degenerate
  are spliced out.
\<close>

definition replaceVertex :: "nat \<Rightarrow> nat \<Rightarrow> nat \<Rightarrow> nat" where
  "replaceVertex v1 v2 v = (if v = v2 then v1 else v)"

definition degenerate :: "nat \<times> nat \<times> nat \<Rightarrow> bool" where
  "degenerate f = (case f of (p, q, r) \<Rightarrow> p = q \<or> q = r \<or> r = p)"

definition collapseEdge :: "collapseState \<Rightarrow> nat \<Rightarrow> nat \<Rightarrow> vec3 \<Rightarrow> collapseState" where
  "collapseEdge st v1 v2 bestPos =
     st\<lparr>cVertices := (cVertices st)[v1 := bestPos],
        cQuadrics := (cQuadrics st)[v1 := addQuadric (cQuadrics st ! v1) (cQuadrics st ! v2)],
        removedVertices := insert v2 (removedVertices st),
        cFaces := filter (\<lambda>f. \<not> degenerate f)
                    (map (\<lambda>(p, q, r). (replaceVertex v1 v2 p, replaceVertex v1 v2 q,
                                         replaceVertex v1 v2 r)) (cFaces st)),
        cEdges := filter (\<lambda>(p, q). p \<noteq> q)
                    (map (\<lambda>(p, q). (replaceVertex v1 v2 p, replaceVertex v1 v2 q)) (cEdges st))\<rparr>"

lemma considerEdge_cases:
  "considerEdge st best e = best \<or>
   (\<exists>err pos. considerEdge st best e = Some (err, e, pos) \<and>
      fst e \<notin> removedVertices st \<and> snd e \<notin> removedVertices st)"
  by (cases e) (auto simp: considerEdge_def Let_def)

lemma findBestLoop_mem:
  assumes "foldl (considerEdge st) best es = Some (err, e, pos)"
  shows "best = Some (err, e, pos) \<or>
         (e \<in> set es \<and> fst e \<notin> removedVertices st \<and> snd e \<notin> removedVertices st)"
  using assms
proof (induction es arbitrary: best)
  case Nil then show ?case by simp
next
  case (Cons x es)
  from Cons.IH[of "considerEdge st best x"] Cons.prems
  have "considerEdge st best x = Some (err, e, pos) \<or>
        (e \<in> set es \<and> fst e \<notin> removedVertices st \<and> snd e \<notin> removedVertices st)"
    by simp
  with considerEdge_cases[of st best x] show ?case by auto
qed

lemma findBestEdge_mem:
  "findBestEdge st = Some (err, e, pos) \<Longrightarrow>
     e \<in> set (cEdges st) \<and> fst e \<notin> removedVertices st \<and> snd e \<notin> removedVertices st"
  using findBestLoop_mem[of st None "cEdges st" err e pos] by (simp add: findBestEdge_def)

lemma collapseEdge_shrinks:
  assumes "(v1, v2) \<in> set (cEdges st)"
  shows "length (cEdges (collapseEdge st v1 v2 pos)) < length (cEdges st)"
proof -
  let ?f = "\<lambda>(p, q). (replaceVertex v1 v2 p, replaceVertex v1 v2 q)"
  have "(v1, v1) \<in> set (map ?f (cEdges st))"
    using assms by (force simp: replaceVertex_def)
  then have "length (filter (\<lambda>(p, q). p \<noteq> q) (map ?f (cEdges st))) < length (map ?f (cEdges st))"
    by (intro length_filter_less[of "(v1, v1)"]) auto
  then show ?thesis by (simp add: collapseEdge_def)
qed

text \<open>
  The loop \<open>while (faces.length > targetFaceCount)\<close>. Every round that does not break
  splices the collapsed edge out of the edge list, which is what ends the loop.
\<close>

function collapseLoop :: "int \<Rightarrow> collapseState \<Rightarrow> collapseState" where
  "collapseLoop target st =
     (if int (length (cFaces st)) > target
      then (case findBestEdge st of
              None \<Rightarrow> st
            | Some (err, (v1, v2), pos) \<Rightarrow> collapseLoop target (collapseEdge st v1 v2 pos))
      else st)"
  by pat_completeness auto
termination
proof (relation "measure (\<lambda>(target, st). length (cEdges st))")
  show "wf (measure (\<lambda>(target, st). length (cEdges st)))" by simp
next
  fix target :: int and st :: collapseState and x2 err y v1v2 pos v1 v2
  assume "findBestEdge st = Some x2" "(err, y) = x2" "(v1v2, pos) = y" "(v1, v2) = v1v2"
  then have "findBestEdge st = Some (err, (v1, v2), pos)" by simp
  from findBestEdge_mem[OF this] have "(v1, v2) \<in> set (cEdges st)" by simp
  from collapseEdge_shrinks[OF this]
  show "((target, collapseEdge st v1 v2 pos), (target, st)) \<in> measure (\<lambda>(target, st). length (cEdges st))"
    by simp
qed

declare collapseLoop.simps [simp del]

text \<open>
  The number of times the body of the loop is entered, counting the round that breaks.
  It follows the loop step for step.
\<close>

function collapseRounds :: "int \<Rightarrow> collapseState \<Rightarrow> nat" where
  "collapseRounds target st =
     (if int (length (cFaces st)) > target
      then (case findBestEdge st of
              None \<Rightarrow> 1
            | Some (err, (v1, v2), pos) \<Rightarrow> 1 + collapseRounds target (collapseEdge st v1 v2 pos))
      else 0)"
  by pat_completeness auto
termination
proof (relation "measure (\<lambda>(target, st). length (cEdges st))")
  show "wf (measure (\<lambda>(target, st). length (cEdges st)))" by simp
next
  fix target :: int and st :: collapseState and x2 err y v1v2 pos v1 v2
  assume "findBestEdge st = Some x2" "(err, y) = x2" "(v1v2, pos) = y" "(v1, v2) = v1v2"
  then have "findBestEdge st = Some (err, (v1, v2), pos)" by simp
  from findBestEdge_mem[OF this] have "(v1, v2) \<in> set (cEdges st)" by simp
  from collapseEdge_shrinks[OF this]
  show "((target, collapseEdge st v1 v2 pos), (target, st)) \<in> measure (\<lambda>(target, st). length (cEdges st))"
    by simp
qed

declare collapseRounds.simps [simp del]

text \<open>
  After the loop the surviving vertices are numbered in the order in which the faces
  mention them. \<open>geometry.uvs[i] ?? 0\<close> reads 0 past the end of the buffer.
\<close>

record compactState =
  kVertices :: "real list"
  kNormals :: "real list"
  kUvs :: "real list"
  newVertexMap :: "nat \<rightharpoonup> nat"
  newIdx :: nat

definition readOrZero :: "real list \<Rightarrow> nat \<Rightarrow> real" where
  "readOrZero xs i = (if i < length xs then xs ! i else 0)"

definition compactVertex :: "vec3 list \<Rightarrow> real list \<Rightarrow> compactState \<Rightarrow> nat \<Rightarrow> compactState" where
  "compactVertex vs us k vIdx =
     (case newVertexMap k vIdx of
        Some j \<Rightarrow> k
      | None \<Rightarrow>
          k\<lparr>kVertices := kVertices k @ [vx (vs ! vIdx), vy (vs ! vIdx), vz (vs ! vIdx)],
            kNormals := kNormals k @ [0, 0, 0],
            kUvs := kUvs k @ [readOrZero us (vIdx * 2), readOrZero us (vIdx * 2 + 1)],
            newVertexMap := (newVertexMap k)(vIdx \<mapsto> newIdx k),
            newIdx := newIdx k + 1\<rparr>)"

definition compactFace :: "vec3 list \<Rightarrow> real list \<Rightarrow> compactState \<Rightarrow> nat \<times> nat \<times> nat \<Rightarrow> compactState" where
  "compactFace vs us k f =
     (case f of (p, q, r) \<Rightarrow> foldl (compactVertex vs us) k [p, q, r])"

text \<open>
  The normals of the compact mesh: every triangle adds its unnormalised face normal to
  its corners, then every normal of positive length is scaled to length one. (The same
  two loops as in \<open>recalculateNormals\<close> of the sculpt engine; all indices are in range
  here.)
\<close>

definition accumulateNormal :: "real list \<Rightarrow> real list \<Rightarrow> nat \<times> nat \<times> nat \<Rightarrow> real list" where
  "accumulateNormal vs ns t =
     (case t of (i0, i1, i2) \<Rightarrow>
        let v0 = vertexAt vs i0; v1 = vertexAt vs i1; v2 = vertexAt vs i2;
            n = vec3Cross (vec3Sub v1 v0) (vec3Sub v2 v0)
        in foldl (\<lambda>acc i. acc[i * 3 := acc ! (i * 3) + vx n,
                                 i * 3 + 1 := acc ! (i * 3 + 1) + vy n,
                                 i * 3 + 2 := acc ! (i * 3 + 2) + vz n]) ns [i0, i1, i2])"

definition decimateCollapse :: "'m editableMesh \<Rightarrow> real \<Rightarrow> jsError + 'm editableMesh" where
  "decimateCollapse mesh r =
     (let g = geometry mesh;
          origFaceCount = length (indices g);
          targetFaceCount = max 4 \<lfloor>real origFaceCount * r\<rfloor>;
          vs0 = map (vertexAt (vertices g)) [0..<vertexCount g];
          fs0 = map readTri (indices g)
      in if list_ex (\<lambda>(i0, i1, i2). \<not> i0 < vertexCount g \<or> \<not> i1 < vertexCount g \<or>
                                      \<not> i2 < vertexCount g) fs0
         then Inl TypeError
         else
           let qs0 = foldl (addFaceQuadric vs0) (replicate (vertexCount g) createQuadric) fs0;
               es0 = foldl addFaceEdges [] fs0;
               st = collapseLoop targetFaceCount
                      \<lparr>cVertices = vs0, cFaces = fs0, cQuadrics = qs0, cEdges = es0,
                       removedVertices = {}\<rparr>;
               k = foldl (compactFace (cVertices st) (uvs g))
                     \<lparr>kVertices = [], kNormals = [], kUvs = [], newVertexMap = Map.empty,
                      newIdx = 0\<rparr> (cFaces st);
               newIndices = map (\<lambda>(p, q, r). (the (newVertexMap k p), the (newVertexMap k q),
                                                the (newVertexMap k r))) (cFaces st);
               ns1 = foldl (accumulateNormal (kVertices k)) (kNormals k) newIndices;
               ns2 = foldl normalizeAt ns1 [0..<length (kVertices k) div 3];
               its = map someTri newIndices
           in Inr (mesh\<lparr>geometry :=
                \<lparr>gid = gid g,
                 vertices = kVertices k,
                 normals = ns2,
                 uvs = kUvs k,
                 indices = toUint16Array its,
                 vertexCount = length (kVertices k) div 3,
                 edges = rebuildEdges its,
                 faces = rebuildFaces ns2 its\<rparr>\<rparr>))"

text \<open>
  The number of rounds of the collapse loop that \<open>decimateCollapse\<close> runs on a mesh:
  none when it throws before the loop.
\<close>

definition decimateRounds :: "'m editableMesh \<Rightarrow> real \<Rightarrow> nat" where
  "decimateRounds mesh r =
     (let g = geometry mesh;
          targetFaceCount = max 4 \<lfloor>real (length (indices g)) * r\<rfloor>;
          vs0 = map (vertexAt (vertices g)) [0..<vertexCount g];
          fs0 = map readTri (indices g)
      in if list_ex (\<lambda>(i0, i1, i2). \<not> i0 < vertexCount g \<or> \<not> i1 < vertexCount g \<or>
                                      \<not> i2 < vertexCount g) fs0
         then 0
         else collapseRounds targetFaceCount
                \<lparr>cVertices = vs0, cFaces = fs0,
                 cQuadrics = foldl (addFaceQuadric vs0) (replicate (vertexCount g) createQuadric) fs0,
                 cEdges = foldl addFaceEdges [] fs0, removedVertices = {}\<rparr>)"

definition decimatePlanar :: "'m editableMesh \<Rightarrow> real \<Rightarrow> jsError + 'm editableMesh" where
  "decimatePlanar mesh r = decimateCollapse mesh r"

definition decimateUnsubdivide :: "'m editableMesh \<Rightarrow> real \<Rightarrow> jsError + 'm editableMesh" where
  "decimateUnsubdivide mesh r = decimateCollapse mesh r"

definition decimate :: "'m editableMesh \<Rightarrow> decimateOptions \<Rightarrow> jsError + 'm editableMesh" where
  "decimate mesh options =
     (if ratio options \<ge> 1 then Inr mesh
      else case mode options of
             Collapse \<Rightarrow> decimateCollapse mesh (ratio options)
           | Planar \<Rightarrow> decimatePlanar mesh (ratio options)
           | Unsubdivide \<Rightarrow> decimateUnsubdivide mesh (ratio options))"

text \<open>
  What the collapse loop keeps true of its working copy, for a bound \<open>vc\<close> on the
  vertex indices. A side of a face is in the edge list in one of its two directions.
  Before the first round nothing is removed. After a round no edge is a loop, no face is
  degenerate, and a removed vertex can still occur only if it is the one vertex \<open>a\<close>
  that a first round on a loop edge \<open>(a, a)\<close> has removed.
\<close>

definition sideIn :: "(nat \<times> nat) list \<Rightarrow> nat \<Rightarrow> nat \<Rightarrow> bool" where
  "sideIn es p q = ((p, q) \<in> set es \<or> (q, p) \<in> set es)"

definition sidesIn :: "(nat \<times> nat) list \<Rightarrow> nat \<times> nat \<times> nat \<Rightarrow> bool" where
  "sidesIn es f = (case f of (p, q, r) \<Rightarrow> sideIn es p q \<and> sideIn es q r \<and> sideIn es r p)"

definition collapseInv0 :: "nat \<Rightarrow> collapseState \<Rightarrow> bool" where
  "collapseInv0 vc st =
     (removedVertices st = {} \<and>
      list_all (\<lambda>e. fst e < vc \<and> snd e < vc) (cEdges st) \<and>
      list_all (sidesIn (cEdges st)) (cFaces st))"

definition collapseInv1 :: "nat \<Rightarrow> collapseState \<Rightarrow> bool" where
  "collapseInv1 vc st =
     (\<exists>a. removedVertices st \<subseteq> {..<vc} \<and>
        list_all (\<lambda>e. fst e < vc \<and> snd e < vc \<and> fst e \<noteq> snd e \<and>
                       fst e \<notin> removedVertices st - {a} \<and>
                       snd e \<notin> removedVertices st - {a}) (cEdges st) \<and>
        list_all (\<lambda>f. \<not> degenerate f \<and> sidesIn (cEdges st) f) (cFaces st))"

definition collapseInv :: "nat \<Rightarrow> collapseState \<Rightarrow> bool" where
  "collapseInv vc st = (collapseInv0 vc st \<or> collapseInv1 vc st)"

section \<open>Array\<close>

datatype offsetKind = Constant | Relative | Object

text \<open>
  \<open>count\<close> is a number; the copy loop \<open>for (copy = 0; copy < count; copy++)\<close> runs
  for the naturals below it.
\<close>

record arrayOptions =
  count :: real
  offset :: vec3
  offsetType :: offsetKind
  mergeVertices :: bool
  mergeThreshold :: real
  startCap :: "string option"
  endCap :: "string option"

text \<open>
  The bounding box of the relative offset. A running bound that starts at
  an infinity is \<open>None\<close> until the first vertex. With no vertex at all the sizes
  are infinite in the source; no vertex is copied then and the offset is never read.
\<close>

definition runMin :: "real option \<Rightarrow> real \<Rightarrow> real option" where
  "runMin m x = (case m of None \<Rightarrow> Some x | Some y \<Rightarrow> Some (min y x))"

definition runMax :: "real option \<Rightarrow> real \<Rightarrow> real option" where
  "runMax m x = (case m of None \<Rightarrow> Some x | Some y \<Rightarrow> Some (max y x))"

definition boundsOf :: "real list \<Rightarrow> nat \<Rightarrow> nat \<Rightarrow> real option \<times> real option" where
  "boundsOf vs n k =
     foldl (\<lambda>b i. (runMin (fst b) (vs ! (i * 3 + k)), runMax (snd b) (vs ! (i * 3 + k))))
       (None, None) [0..<n]"

definition sizeOf :: "real option \<times> real option \<Rightarrow> real" where
  "sizeOf b = the (snd b) - the (fst b)"

record arrayBuffers =
  aVertices :: "real list"
  aNormals :: "real list"
  aUvs :: "real list"
  aIndices :: "(nat \<times> nat \<times> nat) list"

text \<open>
  One vertex of one copy. The \<open>mergeMap\<close> of the source is filled here with keys made
  by \<open>toFixed(4)\<close>; nothing reads it for the result, so it is not part of the state.
\<close>

definition copyVertex :: "editableGeometry \<Rightarrow> vec3 \<Rightarrow> arrayBuffers \<Rightarrow> nat \<Rightarrow> arrayBuffers" where
  "copyVertex g copyOffset bufs i =
     bufs\<lparr>aVertices := aVertices bufs @
              [vertices g ! (i * 3) + vx copyOffset,
               vertices g ! (i * 3 + 1) + vy copyOffset,
               vertices g ! (i * 3 + 2) + vz copyOffset],
          aNormals := aNormals bufs @
              [normals g ! (i * 3), normals g ! (i * 3 + 1), normals g ! (i * 3 + 2)],
          aUvs := aUvs bufs @ [uvs g ! (i * 2), uvs g ! (i * 2 + 1)]\<rparr>"

definition shiftTri :: "nat \<Rightarrow> nat \<times> nat \<times> nat \<Rightarrow> nat \<times> nat \<times> nat" where
  "shiftTri base t = (case t of (p, q, r) \<Rightarrow> (p + base, q + base, r + base))"

definition copyStep :: "editableGeometry \<Rightarrow> vec3 \<Rightarrow> arrayBuffers \<Rightarrow> nat \<Rightarrow> arrayBuffers" where
  "copyStep g actualOffset bufs copy =
     (let copyOffset = Vec3 (vx actualOffset * real copy) (vy actualOffset * real copy)
                            (vz actualOffset * real copy);
          baseVertex = length (aVertices bufs) div 3;
          bufs' = foldl (copyVertex g copyOffset) bufs [0..<vertexCount g]
      in bufs'\<lparr>aIndices := aIndices bufs' @ map (shiftTri baseVertex \<circ> readTri) (indices g)\<rparr>)"

subsection \<open>Merging close vertices\<close>

record mergeState =
  mVertices :: "real list"
  mNormals :: "real list"
  mUvs :: "real list"
  indexMap :: "nat \<rightharpoonup> nat"
  newIdx :: nat

text \<open>The inner loop: the first kept vertex nearer than the threshold.\<close>

definition findClose :: "real list \<Rightarrow> real \<Rightarrow> vec3 \<Rightarrow> nat option" where
  "findClose nvs thresholdSq p =
     List.find (\<lambda>j. let dx = nvs ! (j * 3) - vx p;
                         dy = nvs ! (j * 3 + 1) - vy p;
                         dz = nvs ! (j * 3 + 2) - vz p
                     in dx * dx + dy * dy + dz * dz < thresholdSq)
       [0..<length nvs div 3]"

definition mergeStep ::
  "real list \<Rightarrow> real list \<Rightarrow> real list \<Rightarrow> real \<Rightarrow> mergeState \<Rightarrow> nat \<Rightarrow> mergeState" where
  "mergeStep vs ns us thresholdSq st i =
     (case findClose (mVertices st) thresholdSq (vertexAt vs i) of
        Some j \<Rightarrow> st\<lparr>indexMap := (indexMap st)(i \<mapsto> j)\<rparr>
      | None \<Rightarrow>
          st\<lparr>indexMap := (indexMap st)(i \<mapsto> newIdx st),
             mVertices := mVertices st @ [vs ! (i * 3), vs ! (i * 3 + 1), vs ! (i * 3 + 2)],
             mNormals := mNormals st @ [ns ! (i * 3), ns ! (i * 3 + 1), ns ! (i * 3 + 2)],
             mUvs := mUvs st @ [us ! (i * 2), us ! (i * 2 + 1)],
             newIdx := newIdx st + 1\<rparr>)"

text \<open>\<open>indexMap.get(i) ?? i\<close>.\<close>

definition remapIndex :: "(nat \<rightharpoonup> nat) \<Rightarrow> nat \<Rightarrow> nat" where
  "remapIndex im i = (case im i of Some j \<Rightarrow> j | None \<Rightarrow> i)"

definition mergeCloseVertices ::
  "real list \<Rightarrow> real list \<Rightarrow> real list \<Rightarrow> tri16 list \<Rightarrow> real
     \<Rightarrow> real list \<times> real list \<times> real list \<times> tri16 list \<times> nat" where
  "mergeCloseVertices vs ns us inds threshold =
     (let nv = length vs div 3;
          thresholdSq = threshold * threshold;
          st = foldl (mergeStep vs ns us thresholdSq)
                 \<lparr>mVertices = [], mNormals = [], mUvs = [], indexMap = Map.empty, newIdx = 0\<rparr>
                 [0..<nv];
          newIndices = map (\<lambda>t. case readTri t of (p, q, r) \<Rightarrow>
                              (Some (remapIndex (indexMap st) p),
                               Some (remapIndex (indexMap st) q),
                               Some (remapIndex (indexMap st) r))) inds
      in (mVertices st, mNormals st, mUvs st, toUint16Array newIndices,
          length (mVertices st) div 3))"

subsection \<open>The modifier\<close>

definition array :: "'m editableMesh \<Rightarrow> arrayOptions \<Rightarrow> 'm editableMesh" where
  "array mesh options =
     (if count options \<le> 1 then mesh
      else
        let g = geometry mesh;
            origVertexCount = vertexCount g;
            actualOffset =
              (if offsetType options = Relative
               then Vec3 (sizeOf (boundsOf (vertices g) origVertexCount 0) * vx (offset options))
                         (sizeOf (boundsOf (vertices g) origVertexCount 1) * vy (offset options))
                         (sizeOf (boundsOf (vertices g) origVertexCount 2) * vz (offset options))
               else offset options);
            bufs = foldl (copyStep g actualOffset)
                     \<lparr>aVertices = [], aNormals = [], aUvs = [], aIndices = []\<rparr>
                     [0..<nat \<lceil>count options\<rceil>];
            final =
              (if mergeVertices options
               then (case mergeCloseVertices (aVertices bufs) (aNormals bufs) (aUvs bufs)
                            (toUint16Array (map someTri (aIndices bufs))) (mergeThreshold options) of
                       (vs, ns, us, inds, vc) \<Rightarrow> (vs, ns, us, map (someTri \<circ> readTri) inds))
               else (aVertices bufs, aNormals bufs, aUvs bufs, map someTri (aIndices bufs)))
        in case final of (finalVertices, finalNormals, finalUvs, finalIndices) \<Rightarrow>
             mesh\<lparr>geometry :=
               \<lparr>gid = gid g,
                vertices = finalVertices,
                normals = finalNormals,
                uvs = finalUvs,
                indices = toUint16Array finalIndices,
                vertexCount = length finalVertices div 3,
                edges = rebuildEdges finalIndices,
                faces = rebuildFaces finalNormals finalIndices\<rparr>\<rparr>)"

section \<open>Bridge edge loops\<close>

datatype blendKind = Linear | Smooth | Sphere

text \<open>
  \<open>twist\<close> is used as an index offset and is modelled as an integer; \<open>segments\<close> is
  only compared and divided by. The field \<open>smoothness\<close> of the source is
  \<open>bridgeSmoothness\<close> here, the name being taken by the loop cut options.
\<close>

record bridgeOptions =
  loop1 :: "nat list"
  loop2 :: "nat list"
  twist :: int
  segments :: real
  bridgeSmoothness :: real
  blend :: blendKind

definition vec3Distance :: "vec3 \<Rightarrow> vec3 \<Rightarrow> real" where
  "vec3Distance p q =
     (let dx = vx q - vx p; dy = vy q - vy p; dz = vz q - vz p
      in sqrt (dx * dx + dy * dy + dz * dz))"

definition smoothStep :: "real \<Rightarrow> real" where
  "smoothStep t = t * t * (3 - 2 * t)"

definition sphereBlend :: "real \<Rightarrow> real" where
  "sphereBlend t = sqrt (1 - (2 * t - 1) ^ 2) * 0.5 + 0.5"

definition alignmentStep :: "vec3 list \<Rightarrow> vec3 list \<Rightarrow> nat \<times> real option \<Rightarrow> nat \<Rightarrow> nat \<times> real option" where
  "alignmentStep l1 l2 st off =
     (let totalDist = foldl (\<lambda>acc i. acc + vec3Distance (l1 ! i) (l2 ! ((i + off) mod length l2)))
                        0 [0..<length l1]
      in if closer totalDist (snd st) then (off, Some totalDist) else st)"

definition findOptimalAlignment :: "vec3 list \<Rightarrow> vec3 list \<Rightarrow> nat" where
  "findOptimalAlignment l1 l2 =
     (if length l1 \<noteq> length l2 then 0
      else fst (foldl (alignmentStep l1 l2) (0, None) [0..<length l2]))"

text \<open>
  The remainder \<open>%\<close> of JavaScript on integers takes the sign of the dividend, and
  \<open>xs[k]\<close> is \<open>undefined\<close> for a negative \<open>k\<close> as it is past the end.
\<close>

definition jsRem :: "int \<Rightarrow> int \<Rightarrow> int" where
  "jsRem p q = (if p < 0 then - ((- p) mod q) else p mod q)"

definition elemAtInt :: "'a list \<Rightarrow> int \<Rightarrow> 'a option" where
  "elemAtInt xs k = (if 0 \<le> k \<and> k < int (length xs) then Some (xs ! nat k) else None)"

text \<open>A fold that stops at the first exception.\<close>

fun foldE :: "('s \<Rightarrow> 'a \<Rightarrow> jsError + 's) \<Rightarrow> 's \<Rightarrow> 'a list \<Rightarrow> jsError + 's" where
  "foldE f s [] = Inr s"
| "foldE f s (x # xs) = (case f s x of Inl e \<Rightarrow> Inl e | Inr s' \<Rightarrow> foldE f s' xs)"

record bridgeBuffers =
  bVertices :: "real list"
  bNormals :: "real list"
  bUvs :: "real list"
  allLoops :: "idx list list"

text \<open>
  One vertex of an intermediate loop. \<open>loop2Pos[i2]\<close> is \<open>undefined\<close> when the index
  is negative, and \<open>vec3Lerp\<close> then throws on reading its \<open>x\<close>.
\<close>

definition bridgeVertex ::
  "editableGeometry \<Rightarrow> bridgeOptions \<Rightarrow> int \<Rightarrow> real
     \<Rightarrow> bridgeBuffers \<times> idx list \<Rightarrow> nat \<Rightarrow> jsError + bridgeBuffers \<times> idx list" where
  "bridgeVertex g options alignmentOffset t acc i =
     (let bufs = fst acc;
          i1 = i mod length (loop1 options);
          i2 = jsRem (int i + alignmentOffset) (int (length (loop2 options)))
      in case elemAtInt (loop2 options) i2 of
           None \<Rightarrow> Inl TypeError
         | Some w2 \<Rightarrow>
             let w1 = loop1 options ! i1;
                 p1 = vertexAt (vertices g) w1;
                 p2 = vertexAt (vertices g) w2;
                 n1 = vertexAt (normals g) w1;
                 n2 = vertexAt (normals g) w2;
                 pos0 = vec3Lerp p1 p2 t;
                 pos = (if bridgeSmoothness options > 0
                        then vec3Add pos0
                               (vec3Scale (vec3Normalize (vec3Add n1 n2))
                                  (sin (pi * t) * bridgeSmoothness options * vec3Distance p1 p2 * 0.25))
                        else pos0);
                 newIdx = length (bVertices bufs) div 3;
                 normal = vec3Normalize (vec3Lerp n1 n2 t)
             in Inr (bufs\<lparr>bVertices := bVertices bufs @ [vx pos, vy pos, vz pos],
                          bNormals := bNormals bufs @ [vx normal, vy normal, vz normal],
                          bUvs := bUvs bufs @
                            [uvs g ! (w1 * 2) + t * (uvs g ! (w2 * 2) - uvs g ! (w1 * 2)),
                             uvs g ! (w1 * 2 + 1) + t * (uvs g ! (w2 * 2 + 1) - uvs g ! (w1 * 2 + 1))]\<rparr>,
                     snd acc @ [Some newIdx]))"

definition bridgeSegment ::
  "editableGeometry \<Rightarrow> bridgeOptions \<Rightarrow> int \<Rightarrow> bridgeBuffers \<Rightarrow> nat \<Rightarrow> jsError + bridgeBuffers" where
  "bridgeSegment g options alignmentOffset bufs s =
     (let t0 = real s / segments options;
          t = (case blend options of Smooth \<Rightarrow> smoothStep t0 | Sphere \<Rightarrow> sphereBlend t0 | Linear \<Rightarrow> t0);
          n = max (length (loop1 options)) (length (loop2 options))
      in case foldE (bridgeVertex g options alignmentOffset t) (bufs, []) [0..<n] of
           Inl e \<Rightarrow> Inl e
         | Inr (bufs', intermediateLoop) \<Rightarrow>
             Inr (bufs'\<lparr>allLoops := allLoops bufs' @ [intermediateLoop]\<rparr>))"

text \<open>The two triangles of the quad number \<open>i\<close> between two consecutive loops.\<close>

definition bridgeQuad :: "idx list \<Rightarrow> idx list \<Rightarrow> nat \<Rightarrow> itri list" where
  "bridgeQuad currentLoop nextLoop i =
     (let v0 = currentLoop ! (i mod length currentLoop);
          v1 = currentLoop ! ((i + 1) mod length currentLoop);
          v2 = nextLoop ! (i mod length nextLoop);
          v3 = nextLoop ! ((i + 1) mod length nextLoop)
      in [(v0, v1, v3), (v0, v3, v2)])"

definition bridgeBand :: "idx list list \<Rightarrow> nat \<Rightarrow> itri list" where
  "bridgeBand loops l =
     concat (map (bridgeQuad (loops ! l) (loops ! (l + 1)))
               [0..<max (length (loops ! l)) (length (loops ! (l + 1)))])"

definition bridgeEdgeLoops :: "'m editableMesh \<Rightarrow> bridgeOptions \<Rightarrow> jsError + 'm editableMesh" where
  "bridgeEdgeLoops mesh options =
     (if length (loop1 options) < 3 \<or> length (loop2 options) < 3 then Inr mesh
      else
        let g = geometry mesh;
            loop1Pos = map (vertexAt (vertices g)) (loop1 options);
            loop2Pos = map (vertexAt (vertices g)) (loop2 options);
            alignmentOffset =
              (if length (loop1 options) = length (loop2 options) \<and> twist options = 0
               then int (findOptimalAlignment loop1Pos loop2Pos) else twist options)
        in case foldE (bridgeSegment g options alignmentOffset)
                  \<lparr>bVertices = vertices g, bNormals = normals g, bUvs = uvs g,
                   allLoops = [map Some (loop1 options)]\<rparr>
                  [1..<nat \<lceil>segments options\<rceil>] of
             Inl e \<Rightarrow> Inl e
           | Inr bufs \<Rightarrow>
               let loops = allLoops bufs @
                     [map (\<lambda>i. elemAtInt (loop2 options)
                                 (jsRem (int i + alignmentOffset) (int (length (loop2 options)))))
                          [0..<length (loop2 options)]];
                   newIndices = map (someTri \<circ> readTri) (indices g) @
                                concat (map (bridgeBand loops) [0..<length loops - 1])
               in Inr (mesh\<lparr>geometry :=
                    \<lparr>gid = gid g,
                     vertices = bVertices bufs,
                     normals = bNormals bufs,
                     uvs = bUvs bufs,
                     indices = toUint16Array newIndices,
                     vertexCount = length (bVertices bufs) div 3,
                     edges = rebuildEdges newIndices,
                     faces = rebuildFaces (bNormals bufs) newIndices\<rparr>\<rparr>))"

section \<open>Knife\<close>

record knifeCutPath =
  points :: "vec3 list"
  throughCut :: bool
  constrainAngle :: bool
  angleIncrement :: real

text \<open>The segment against a triangle: the hit point, its parameter and the barycentric
  coordinates, or \<open>null\<close>.\<close>

definition segmentTriangleIntersect ::
  "vec3 \<Rightarrow> vec3 \<Rightarrow> vec3 \<Rightarrow> vec3 \<Rightarrow> vec3 \<Rightarrow> (vec3 \<times> real \<times> vec3) option" where
  "segmentTriangleIntersect p0 p1 v0 v1 v2 =
     (let e1 = vec3Sub v1 v0;
          e2 = vec3Sub v2 v0;
          dir = vec3Sub p1 p0;
          h = vec3Cross dir e2;
          a = vec3Dot e1 h
      in if \<bar>a\<bar> < 1 / 1000000 then None
         else
           let f = 1 / a;
               s = vec3Sub p0 v0;
               u = f * vec3Dot s h
           in if u < 0 \<or> u > 1 then None
              else
                let q = vec3Cross s e1;
                    v = f * vec3Dot dir q
                in if v < 0 \<or> u + v > 1 then None
                   else
                     let t = f * vec3Dot e2 q
                     in if t < 0 \<or> t > 1 then None
                        else Some (vec3Add p0 (vec3Scale dir t), t, Vec3 (1 - u - v) u v))"

record knifeBuffers =
  kVertices :: "real list"
  kNormals :: "real list"
  kUvs :: "real list"

text \<open>\<open>splitEdge\<close> pushes the new vertex and returns its index.\<close>

definition splitEdge :: "knifeBuffers \<Rightarrow> nat \<Rightarrow> nat \<Rightarrow> real \<Rightarrow> knifeBuffers \<times> nat" where
  "splitEdge bufs v0 v1 t =
     (let vs = kVertices bufs; ns = kNormals bufs; us = kUvs bufs
      in (bufs\<lparr>kVertices := vs @
                  [vs ! (v0 * 3) + t * (vs ! (v1 * 3) - vs ! (v0 * 3)),
                   vs ! (v0 * 3 + 1) + t * (vs ! (v1 * 3 + 1) - vs ! (v0 * 3 + 1)),
                   vs ! (v0 * 3 + 2) + t * (vs ! (v1 * 3 + 2) - vs ! (v0 * 3 + 2))],
               kNormals := ns @
                  [ns ! (v0 * 3) + t * (ns ! (v1 * 3) - ns ! (v0 * 3)),
                   ns ! (v0 * 3 + 1) + t * (ns ! (v1 * 3 + 1) - ns ! (v0 * 3 + 1)),
                   ns ! (v0 * 3 + 2) + t * (ns ! (v1 * 3 + 2) - ns ! (v0 * 3 + 2))],
               kUvs := us @
                  [us ! (v0 * 2) + t * (us ! (v1 * 2) - us ! (v0 * 2)),
                   us ! (v0 * 2 + 1) + t * (us ! (v1 * 2 + 1) - us ! (v0 * 2 + 1))]\<rparr>,
          length vs div 3))"

text \<open>An entry of \<open>triangleCuts\<close>: the edge number, the point and the parameter.\<close>

type_synonym knifeEntry = "nat \<times> vec3 \<times> real"

text \<open>
  The edge to split: the first of \<open>[0,1], [1,2], [2,0]\<close> whose opposite barycentric
  value is below 0.9; nothing when the hit is near a vertex.
\<close>

definition edgeToSplit :: "vec3 \<Rightarrow> vec3 \<Rightarrow> knifeEntry list" where
  "edgeToSplit bary pt =
     (let baryVals = [vx bary, vy bary, vz bary];
          nearVertex = list_ex (\<lambda>b. b > 1 - 0.05) baryVals
      in if nearVertex then []
         else case List.find (\<lambda>e. baryVals ! (3 - fst e - snd e) < 0.9)
                     [(0, 1), (1, 2), (2, 0)] of
                None \<Rightarrow> []
              | Some e \<Rightarrow>
                  [(if e = (0, 1) then 0 else if e = (1, 2) then 1 else 2, pt,
                    baryVals ! snd e / (baryVals ! fst e + baryVals ! snd e))])"

definition recordCut ::
  "editableGeometry \<Rightarrow> vec3 \<Rightarrow> vec3 \<Rightarrow> (nat \<rightharpoonup> knifeEntry list) \<Rightarrow> nat \<times> tri16
     \<Rightarrow> (nat \<rightharpoonup> knifeEntry list)" where
  "recordCut g p0 p1 triangleCuts it =
     (case it of (triIdx, tri) \<Rightarrow>
        case readTri tri of (i0, i1, i2) \<Rightarrow>
          case segmentTriangleIntersect p0 p1 (vertexAt (vertices g) i0)
                 (vertexAt (vertices g) i1) (vertexAt (vertices g) i2) of
            None \<Rightarrow> triangleCuts
          | Some (pt, t, bary) \<Rightarrow>
              let old = (case triangleCuts triIdx of None \<Rightarrow> [] | Some cs \<Rightarrow> cs)
              in triangleCuts(triIdx \<mapsto> old @ edgeToSplit bary pt))"

definition cutSegment ::
  "editableGeometry \<Rightarrow> knifeCutPath \<Rightarrow> (nat \<rightharpoonup> knifeEntry list) \<Rightarrow> nat
     \<Rightarrow> (nat \<rightharpoonup> knifeEntry list)" where
  "cutSegment g ct triangleCuts segIdx =
     (let segStart = points ct ! segIdx;
          segEnd = points ct ! (segIdx + 1);
          dir = vec3Normalize (vec3Sub segEnd segStart);
          p0 = (if throughCut ct then vec3Sub segStart (vec3Scale dir 1000) else segStart);
          p1 = (if throughCut ct then vec3Add segEnd (vec3Scale dir 1000) else segEnd)
      in foldl (recordCut g p0 p1) triangleCuts (enumerate 0 (indices g)))"

text \<open>The edge number \<open>e\<close> of a triangle, and the vertex opposite to it.\<close>

definition edgeVertsOf :: "nat \<times> nat \<times> nat \<Rightarrow> nat \<Rightarrow> nat \<times> nat" where
  "edgeVertsOf t e = (case t of (i0, i1, i2) \<Rightarrow> [(i0, i1), (i1, i2), (i2, i0)] ! e)"

definition rebuildTriangle ::
  "(nat \<rightharpoonup> knifeEntry list) \<Rightarrow> knifeBuffers \<times> itri list \<Rightarrow> nat \<times> tri16 \<Rightarrow> knifeBuffers \<times> itri list" where
  "rebuildTriangle triangleCuts acc it =
     (case it of (triIdx, tri) \<Rightarrow>
        case readTri tri of (i0, i1, i2) \<Rightarrow>
          let bufs = fst acc;
              cuts = (case triangleCuts triIdx of None \<Rightarrow> [] | Some cs \<Rightarrow> cs)
          in if length cuts = 0 then (bufs, snd acc @ [someTri (i0, i1, i2)])
             else if length cuts = 1 then
               (let e = fst (cuts ! 0);
                    t = snd (snd (cuts ! 0));
                    edgeVerts = edgeVertsOf (i0, i1, i2) e;
                    (bufs', newVert) = splitEdge bufs (fst edgeVerts) (snd edgeVerts) t;
                    oppositeVert = [i2, i0, i1] ! e
                in (bufs', snd acc @ [someTri (fst edgeVerts, newVert, oppositeVert),
                                      someTri (newVert, snd edgeVerts, oppositeVert)]))
             else if length cuts = 2 then
               (let sorted = sort_key fst cuts;
                    edge0 = fst (sorted ! 0);
                    edge1 = fst (sorted ! 1);
                    edgeVerts0 = edgeVertsOf (i0, i1, i2) edge0;
                    edgeVerts1 = edgeVertsOf (i0, i1, i2) edge1;
                    (bufs0, newVert0) = splitEdge bufs (fst edgeVerts0) (snd edgeVerts0)
                                          (snd (snd (sorted ! 0)));
                    (bufs1, newVert1) = splitEdge bufs0 (fst edgeVerts1) (snd edgeVerts1)
                                          (snd (snd (sorted ! 1)))
                in if int edge1 - int edge0 = 1 \<or> (edge0 = 0 \<and> edge1 = 2) then
                     (let sharedVert = [i1, i2, i0] ! edge0;
                          startVert = fst edgeVerts0;
                          endVert = snd edgeVerts1
                      in (bufs1, snd acc @ [someTri (startVert, newVert0, newVert1),
                                            someTri (startVert, newVert1, endVert),
                                            someTri (newVert0, sharedVert, newVert1)]))
                   else (bufs1, snd acc @ [someTri (i0, i1, i2)]))
             else (bufs, snd acc @ [someTri (i0, i1, i2)]))"

definition knifeCut :: "'m editableMesh \<Rightarrow> knifeCutPath \<Rightarrow> 'm editableMesh" where
  "knifeCut mesh ct =
     (if length (points ct) < 2 then mesh
      else
        let g = geometry mesh;
            triangleCuts = foldl (cutSegment g ct) Map.empty [0..<length (points ct) - 1];
            (bufs, newIndices) =
               foldl (rebuildTriangle triangleCuts)
                 (\<lparr>kVertices = vertices g, kNormals = normals g, kUvs = uvs g\<rparr>, [])
                 (enumerate 0 (indices g))
        in mesh\<lparr>geometry :=
             \<lparr>gid = gid g,
              vertices = kVertices bufs,
              normals = kNormals bufs,
              uvs = kUvs bufs,
              indices = toUint16Array newIndices,
              vertexCount = length (kVertices bufs) div 3,
              edges = rebuildEdges newIndices,
              faces = rebuildFaces (kNormals bufs) newIndices\<rparr>\<rparr>)"

text \<open>
  \<open>knifeProject\<close> collects the two ends of every edge of the projected mesh and cuts
  along them. An edge end that is not a number reads \<open>undefined\<close> coordinates; the
  model reads the buffer at \<open>the\<close> of the end.
\<close>

definition knifeProject :: "'m editableMesh \<Rightarrow> 'm editableMesh \<Rightarrow> vec3 \<Rightarrow> 'm editableMesh" where
  "knifeProject mesh projectMesh viewDirection =
     (let pg = geometry projectMesh;
          cuts = concat (map (\<lambda>e. [vertexAt (vertices pg) (the (ea e)),
                                     vertexAt (vertices pg) (the (eb e))]) (edges pg))
      in if length cuts < 2 then mesh
         else knifeCut mesh
                \<lparr>points = cuts, throughCut = True, constrainAngle = False, angleIncrement = 0\<rparr>)"

section \<open>Boolean CSG\<close>

text \<open>
  The fields \<open>normal\<close> and \<open>w\<close> of a plane, \<open>vertices\<close> and \<open>plane\<close> of a polygon
  and the four fields of a BSP node carry a prefix here. A node of the source is a
  mutable object; every function that mutates its argument returns the new tree, and
  no object of one tree is reachable from the other before \<open>mergeBSP\<close>, after which
  only \<open>a\<close> is used.
\<close>

record plane =
  planeNormal :: vec3
  planeW :: real

record polygon =
  polyVertices :: "vec3 list"
  polyPlane :: plane

datatype bsp = BSPNode (nodePlane: "plane option") (nodeFront: "bsp option")
  (nodeBack: "bsp option") (nodePolygons: "polygon list")

datatype booleanOperation = Union | Difference | Intersect | OtherOperation

datatype booleanSolver = Fast | Exact

record 'm booleanOptions =
  operation :: booleanOperation
  target :: "'m editableMesh"
  solver :: booleanSolver

definition csgEPSILON :: real where
  "csgEPSILON = 1 / 100000"

definition COPLANAR :: nat where "COPLANAR = 0"
definition FRONT :: nat where "FRONT = 1"
definition BACK :: nat where "BACK = 2"




definition classifyPoint :: "plane \<Rightarrow> vec3 \<Rightarrow> nat" where
  "classifyPoint pl pt =
     (let t = vec3Dot (planeNormal pl) pt - planeW pl
      in if t < - csgEPSILON then BACK
         else if t > csgEPSILON then FRONT
         else COPLANAR)"

subsection \<open>Splitting a polygon\<close>


text \<open>\<open>polygonType |= t\<close> is the bitwise or of the classes of the vertices.\<close>

unbundle bit_operations_syntax

definition polygonType :: "plane \<Rightarrow> polygon \<Rightarrow> nat" where
  "polygonType pl p = foldl (\<lambda>ty v. ty OR classifyPoint pl v) 0 (polyVertices p)"





subsection \<open>BSP trees\<close>







fun allPolygons :: "bsp \<Rightarrow> polygon list" where
  "allPolygons (BSPNode pl f b ps) =
     ps @ (case f of None \<Rightarrow> [] | Some t \<Rightarrow> allPolygons t) @
          (case b of None \<Rightarrow> [] | Some t \<Rightarrow> allPolygons t)"


subsection \<open>Meshes to polygons and back\<close>



record polyBuffers =
  pVertices :: "real list"
  pNormals :: "real list"
  pUvs :: "real list"
  pIndices :: "itri list"
  vertexIndex :: nat




subsection \<open>The modifier\<close>





subsection \<open>Convex polygon lists\<close>

text \<open>
  A polygon is behind a plane when \<open>splitPolygon\<close> classes it \<open>BACK\<close>, or \<open>COPLANAR\<close>
  and facing the same way as the plane. A list of polygons is convex when every polygon
  is classed \<open>COPLANAR\<close> with its own plane and every polygon of the list is behind
  the plane of every polygon of the list: the faces of a convex solid with outward
  normals whose corners are either on a face plane or more than \<open>csgEPSILON\<close> behind
  it, such as the triangulated unit cube. Both conditions are stated with the
  classification the operator itself computes.
\<close>

definition behind :: "plane \<Rightarrow> polygon \<Rightarrow> bool" where
  "behind pl q =
     (polygonType pl q = BACK \<or>
      (polygonType pl q = COPLANAR \<and> vec3Dot (planeNormal pl) (planeNormal (polyPlane q)) > 0))"



fun frontChain :: "(plane \<times> polygon list) list \<Rightarrow> bsp option" where
  "frontChain [] = None"
| "frontChain (l # ls) = Some (BSPNode (Some (fst l)) (frontChain ls) None (snd l))"

text \<open>
  The chain covers a set of polygons when each of them is behind every plane it meets
  on its way down, and none is left below the last node.
\<close>

fun coversL :: "(plane \<times> polygon list) list \<Rightarrow> polygon set \<Rightarrow> bool" where
  "coversL [] S = (S = {})"
| "coversL (l # ls) S =
     ((\<forall>q\<in>S. behind (fst l) q) \<and> coversL ls {q \<in> S. polygonType (fst l) q = BACK})"


section \<open>Example inputs\<close>

definition identityTransform :: transform3D where
  "identityTransform = \<lparr>position = Vec3 0 0 0, rotation = Vec3 0 0 0, scale = Vec3 1 1 1\<rparr>"

definition mkMesh :: "string \<Rightarrow> bool \<Rightarrow> editableGeometry \<Rightarrow> unit editableMesh" where
  "mkMesh n vis g =
     \<lparr>meshId = n, name = n, geometry = g, material = (), transform = identityTransform,
      visible = vis, locked = False, parentId = None\<rparr>"

text \<open>A geometry without vertices or triangles.\<close>

definition emptyGeometry :: editableGeometry where
  "emptyGeometry =
     \<lparr>gid = ''empty'', vertices = [], normals = [], uvs = [], indices = [], vertexCount = 0,
      edges = [], faces = []\<rparr>"

text \<open>One triangle in the plane at height \<open>h\<close>, facing up.\<close>

definition triangleAt :: "real \<Rightarrow> editableGeometry" where
  "triangleAt h =
     \<lparr>gid = ''tri'',
      vertices = [-1, -1, h,  1, -1, h,  0, 1, h],
      normals = [0, 0, 1,  0, 0, 1,  0, 0, 1],
      uvs = [0, 0,  1, 0,  0, 1],
      indices = [(0, 1, 2)],
      vertexCount = 3,
      edges = [Edge (Some 0) (Some 1), Edge (Some 1) (Some 2), Edge (Some 0) (Some 2)],
      faces = [\<lparr>fvertices = [Some 0, Some 1, Some 2], fnormal = Vec3 0 0 1\<rparr>]\<rparr>"

text \<open>A ray looking straight down from height 5.\<close>

definition downRay :: ray where
  "downRay = \<lparr>origin = Vec3 0 0 5, direction = Vec3 0 0 (-1)\<rparr>"

text \<open>
  A scene of three triangles under the ray: a visible one at height 0, an invisible one
  at height 2 and a visible one at height 1.
\<close>

definition pickScene :: "unit editableMesh list" where
  "pickScene =
     [mkMesh ''low'' True (triangleAt 0), mkMesh ''hidden'' False (triangleAt 2),
      mkMesh ''mid'' True (triangleAt 1)]"

text \<open>
  A flat patch of five triangles in the plane \<open>z = 0\<close>, all facing up. The first two
  triangles share the edge \<open>(0, 1)\<close>.
\<close>

definition patchGeometry :: editableGeometry where
  "patchGeometry =
     \<lparr>gid = ''patch'',
      vertices = [0, 0, 0,  1, 0, 0,  0, 1, 0,  1, -1, 0,  1, 1, 0,  2, 0, 0],
      normals = [0, 0, 1,  0, 0, 1,  0, 0, 1,  0, 0, 1,  0, 0, 1,  0, 0, 1],
      uvs = [0, 0,  1, 0,  0, 1,  1, 0,  1, 1,  1, 0],
      indices = [(0, 1, 2), (1, 0, 3), (1, 4, 2), (1, 3, 5), (1, 5, 4)],
      vertexCount = 6,
      edges = [Edge (Some 0) (Some 1), Edge (Some 1) (Some 2), Edge (Some 0) (Some 2),
               Edge (Some 0) (Some 3), Edge (Some 1) (Some 3), Edge (Some 1) (Some 4),
               Edge (Some 2) (Some 4), Edge (Some 3) (Some 5), Edge (Some 1) (Some 5),
               Edge (Some 4) (Some 5)],
      faces = [\<lparr>fvertices = [Some 0, Some 1, Some 2], fnormal = Vec3 0 0 1\<rparr>,
               \<lparr>fvertices = [Some 1, Some 0, Some 3], fnormal = Vec3 0 0 1\<rparr>,
               \<lparr>fvertices = [Some 1, Some 4, Some 2], fnormal = Vec3 0 0 1\<rparr>,
               \<lparr>fvertices = [Some 1, Some 3, Some 5], fnormal = Vec3 0 0 1\<rparr>,
               \<lparr>fvertices = [Some 1, Some 5, Some 4], fnormal = Vec3 0 0 1\<rparr>]\<rparr>"

text \<open>
  The working copy that \<open>decimateCollapse\<close> builds from the patch. Every face lies in
  the plane \<open>z = 0\<close> with unit normal, so the quadric of a vertex is the quadric of
  that plane times the number of faces at the vertex.
\<close>

definition patchVs :: "vec3 list" where
  "patchVs = [Vec3 0 0 0, Vec3 1 0 0, Vec3 0 1 0, Vec3 1 (-1) 0, Vec3 1 1 0, Vec3 2 0 0]"

definition patchFs :: "(nat \<times> nat \<times> nat) list" where
  "patchFs = [(0, 1, 2), (1, 0, 3), (1, 4, 2), (1, 3, 5), (1, 5, 4)]"

definition upQ :: "real \<Rightarrow> quadric" where
  "upQ k = \<lparr>qa = 0, qb = 0, qc = 0, qd = 0, qe = 0, qf = 0, qg = 0, qh = k, qi = 0, qj = 0\<rparr>"

definition patchSt0 :: collapseState where
  "patchSt0 =
     \<lparr>cVertices = patchVs, cFaces = patchFs,
      cQuadrics = [upQ 2, upQ 5, upQ 2, upQ 2, upQ 2, upQ 2],
      cEdges = [(0, 1), (1, 2), (0, 2), (0, 3), (1, 3), (1, 4), (2, 4), (3, 5), (1, 5), (4, 5)],
      removedVertices = {}\<rparr>"















section \<open>Properties\<close>

subsection \<open>Selectors of the example inputs\<close>

lemma mkMesh_sel:
  "geometry (mkMesh n vis g) = g" "visible (mkMesh n vis g) = vis" "meshId (mkMesh n vis g) = n"
  "transform (mkMesh n vis g) = identityTransform"
  by (simp_all add: mkMesh_def)

lemma triangleAt_sel:
  "indices (triangleAt h) = [(0, 1, 2)]"
  "vertices (triangleAt h) = [-1, -1, h,  1, -1, h,  0, 1, h]"
  "vertexCount (triangleAt h) = 3"
  "normals (triangleAt h) = [0, 0, 1,  0, 0, 1,  0, 0, 1]"
  "uvs (triangleAt h) = [0, 0,  1, 0,  0, 1]"
  "edges (triangleAt h) = [Edge (Some 0) (Some 1), Edge (Some 1) (Some 2), Edge (Some 0) (Some 2)]"
  "faces (triangleAt h) = [\<lparr>fvertices = [Some 0, Some 1, Some 2], fnormal = Vec3 0 0 1\<rparr>]"
  "gid (triangleAt h) = ''tri''"
  by (simp_all add: triangleAt_def)

subsection \<open>Ray casting returns the closest hit\<close>

lemma meshStep_state:
  assumes "loopState P st"
    and "\<And>d p. triangleHit r m (snd it) = Some (d, p) \<Longrightarrow>
        P \<lparr>hitMeshId = meshId m, distance = d, point = p, faceIndex = fst it, vertexIndex = None\<rparr>"
  shows "loopState P (raycastMeshStep r m st it)"
  using assms
  by (auto simp: raycastMeshStep_def loopState_def split: option.splits)

lemma meshLoop_state:
  assumes "loopState P st"
    and "\<And>it d p. it \<in> set its \<Longrightarrow> triangleHit r m (snd it) = Some (d, p) \<Longrightarrow>
        P \<lparr>hitMeshId = meshId m, distance = d, point = p, faceIndex = fst it, vertexIndex = None\<rparr>"
  shows "loopState P (foldl (raycastMeshStep r m) st its)"
  using assms
proof (induction its arbitrary: st)
  case Nil then show ?case by simp
next
  case (Cons it its)
  have step: "loopState P (raycastMeshStep r m st it)"
    by (rule meshStep_state) (use Cons.prems in auto)
  have "loopState P (foldl (raycastMeshStep r m) (raycastMeshStep r m st it) its)"
    by (rule Cons.IH[OF step]) (use Cons.prems(2) in auto)
  then show ?case by simp
qed

lemma meshStep_mono:
  "snd st = Some c \<Longrightarrow> \<exists>c'. snd (raycastMeshStep r m st it) = Some c' \<and> c' \<le> c"
  by (auto simp: raycastMeshStep_def closer_def split: option.splits)

lemma meshLoop_mono:
  "snd st = Some c \<Longrightarrow> \<exists>c'. snd (foldl (raycastMeshStep r m) st its) = Some c' \<and> c' \<le> c"
proof (induction its arbitrary: st c)
  case Nil then show ?case by simp
next
  case (Cons it its)
  from meshStep_mono[OF Cons.prems] obtain c1 where
    c1: "snd (raycastMeshStep r m st it) = Some c1" "c1 \<le> c" by blast
  from Cons.IH[OF c1(1)] c1(2) show ?case by fastforce
qed

lemma meshStep_le:
  "triangleHit r m (snd it) = Some (d, p) \<Longrightarrow>
     \<exists>c'. snd (raycastMeshStep r m st it) = Some c' \<and> c' \<le> d"
  by (cases "snd st") (auto simp: raycastMeshStep_def closer_def)

lemma meshLoop_le:
  assumes "it \<in> set its" and "triangleHit r m (snd it) = Some (d, p)"
  shows "\<exists>c'. snd (foldl (raycastMeshStep r m) st its) = Some c' \<and> c' \<le> d"
proof -
  from assms(1) obtain pre post where its: "its = pre @ it # post"
    by (auto simp: in_set_conv_decomp)
  obtain c1 where c1: "snd (raycastMeshStep r m (foldl (raycastMeshStep r m) st pre) it) = Some c1" "c1 \<le> d"
    using meshStep_le[OF assms(2)] by blast
  from meshLoop_mono[OF c1(1), where its = post] c1(2) show ?thesis
    by (fastforce simp: its)
qed

lemma triangleHit_positive: "triangleHit r m tri = Some (d, p) \<Longrightarrow> rayEPSILON < d"
  by (auto simp: triangleHit_def rayTriangleIntersect_def Let_def split: prod.splits if_splits)

lemma raycastMesh_Some:
  assumes "raycastMesh r m = Some h"
  shows "visible m \<and> meshHitOK r m h \<and> rayEPSILON < distance h \<and>
         (\<forall>tri\<in>set (indices (geometry m)). \<forall>d p. triangleHit r m tri = Some (d, p) \<longrightarrow> distance h \<le> d)"
proof -
  let ?its = "enumerate 0 (indices (geometry m))"
  let ?fin = "foldl (raycastMeshStep r m) (None, None) ?its"
  from assms have vis: "visible m" and fin: "fst ?fin = Some h"
    by (auto simp: raycastMesh_def split: if_splits)
  have "loopState (meshHitOK r m) ?fin"
    by (rule meshLoop_state) (auto simp: loopState_def meshHitOK_def in_set_enumerate_eq)
  with fin have st: "?fin = (Some h, Some (distance h))" and ok: "meshHitOK r m h"
    by (auto simp: loopState_def)
  have "distance h \<le> d" if "tri \<in> set (indices (geometry m))" "triangleHit r m tri = Some (d, p)" for tri d p
  proof -
    from that(1) obtain i where "i < length (indices (geometry m))" "indices (geometry m) ! i = tri"
      by (auto simp: in_set_conv_nth)
    then have "(i, tri) \<in> set ?its" by (auto simp: in_set_enumerate_eq)
    from meshLoop_le[OF this, where r = r and m = m and d = d and p = p and st = "(None, None)"] that(2) st
    show ?thesis by simp
  qed
  moreover have "rayEPSILON < distance h"
    using ok triangleHit_positive[of r m _ "distance h" "point h"] unfolding meshHitOK_def by blast
  ultimately show ?thesis using vis ok by blast
qed

lemma meshLoop_miss:
  "\<forall>it\<in>set its. triangleHit r m (snd it) = None \<Longrightarrow> foldl (raycastMeshStep r m) st its = st"
  by (induction its arbitrary: st) (auto simp: raycastMeshStep_def)

lemma raycastMesh_None:
  "raycastMesh r m = None \<longleftrightarrow>
     (\<not> visible m \<or> (\<forall>tri\<in>set (indices (geometry m)). triangleHit r m tri = None))"
proof (cases "visible m")
  case False then show ?thesis by (simp add: raycastMesh_def)
next
  case True
  let ?its = "enumerate 0 (indices (geometry m))"
  let ?fin = "foldl (raycastMeshStep r m) (None, None) ?its"
  have st: "loopState (\<lambda>_. True) ?fin"
    by (rule meshLoop_state) (auto simp: loopState_def)
  show ?thesis
  proof
    assume "raycastMesh r m = None"
    with True have fin: "fst ?fin = None" by (simp add: raycastMesh_def)
    have "triangleHit r m tri = None" if "tri \<in> set (indices (geometry m))" for tri
    proof (rule ccontr)
      assume "triangleHit r m tri \<noteq> None"
      then obtain d p where hit: "triangleHit r m tri = Some (d, p)" by auto
      from that obtain i where "i < length (indices (geometry m))" "indices (geometry m) ! i = tri"
        by (auto simp: in_set_conv_nth)
      then have "(i, tri) \<in> set ?its" by (auto simp: in_set_enumerate_eq)
      from meshLoop_le[OF this, where r = r and m = m and d = d and p = p and st = "(None, None)"] hit
      obtain c' where "snd ?fin = Some c'" by auto
      with st fin show False by (auto simp: loopState_def)
    qed
    then show "\<not> visible m \<or> (\<forall>tri\<in>set (indices (geometry m)). triangleHit r m tri = None)" by blast
  next
    assume "\<not> visible m \<or> (\<forall>tri\<in>set (indices (geometry m)). triangleHit r m tri = None)"
    moreover have "snd it \<in> set (indices (geometry m))" if "it \<in> set ?its" for it
      by (cases it) (use that in \<open>auto simp: enumerate_eq_zip dest: set_zip_rightD\<close>)
    ultimately have "\<forall>it\<in>set ?its. triangleHit r m (snd it) = None"
      using True by blast
    from meshLoop_miss[OF this] True show "raycastMesh r m = None"
      by (simp add: raycastMesh_def)
  qed
qed

lemma sceneStep_state:
  assumes "loopState P st"
    and "\<And>h. raycastMesh r m = Some h \<Longrightarrow> P h"
  shows "loopState P (raycastStep r st m)"
  using assms
  by (auto simp: raycastStep_def loopState_def split: option.splits)

lemma sceneLoop_state:
  assumes "loopState P st"
    and "\<And>m h. m \<in> set ms \<Longrightarrow> raycastMesh r m = Some h \<Longrightarrow> P h"
  shows "loopState P (foldl (raycastStep r) st ms)"
  using assms
proof (induction ms arbitrary: st)
  case Nil then show ?case by simp
next
  case (Cons m ms)
  have step: "loopState P (raycastStep r st m)"
    by (rule sceneStep_state) (use Cons.prems in auto)
  have "loopState P (foldl (raycastStep r) (raycastStep r st m) ms)"
    by (rule Cons.IH[OF step]) (use Cons.prems(2) in auto)
  then show ?case by simp
qed

lemma sceneStep_mono:
  "snd st = Some c \<Longrightarrow> \<exists>c'. snd (raycastStep r st m) = Some c' \<and> c' \<le> c"
  by (auto simp: raycastStep_def closer_def split: option.splits)

lemma sceneLoop_mono:
  "snd st = Some c \<Longrightarrow> \<exists>c'. snd (foldl (raycastStep r) st ms) = Some c' \<and> c' \<le> c"
proof (induction ms arbitrary: st c)
  case Nil then show ?case by simp
next
  case (Cons m ms)
  from sceneStep_mono[OF Cons.prems] obtain c1 where
    c1: "snd (raycastStep r st m) = Some c1" "c1 \<le> c" by blast
  from Cons.IH[OF c1(1)] c1(2) show ?case by fastforce
qed

lemma sceneStep_le:
  "raycastMesh r m = Some h \<Longrightarrow> \<exists>c'. snd (raycastStep r st m) = Some c' \<and> c' \<le> distance h"
  by (cases "snd st") (auto simp: raycastStep_def closer_def)

lemma sceneLoop_le:
  assumes "m \<in> set ms" and "raycastMesh r m = Some h"
  shows "\<exists>c'. snd (foldl (raycastStep r) st ms) = Some c' \<and> c' \<le> distance h"
proof -
  from assms(1) obtain pre post where ms: "ms = pre @ m # post"
    by (auto simp: in_set_conv_decomp)
  obtain c1 where c1: "snd (raycastStep r (foldl (raycastStep r) st pre) m) = Some c1"
      "c1 \<le> distance h"
    using sceneStep_le[OF assms(2)] by blast
  from sceneLoop_mono[OF c1(1), where ms = post] c1(2) show ?thesis
    by (fastforce simp: ms)
qed

lemma sceneLoop_miss:
  "\<forall>m\<in>set ms. raycastMesh r m = None \<Longrightarrow> foldl (raycastStep r) st ms = st"
  by (induction ms arbitrary: st) (auto simp: raycastStep_def)

lemma raycast_Some:
  assumes "raycast r meshes = Some h"
  shows "rayEPSILON < distance h \<and> (\<exists>m\<in>set meshes. visible m \<and> meshHitOK r m h) \<and>
         (\<forall>m\<in>set meshes. visible m \<longrightarrow>
            (\<forall>tri\<in>set (indices (geometry m)). \<forall>d p.
               triangleHit r m tri = Some (d, p) \<longrightarrow> distance h \<le> d))"
proof -
  let ?fin = "foldl (raycastStep r) (None, None) meshes"
  let ?P = "\<lambda>h. rayEPSILON < distance h \<and> (\<exists>m\<in>set meshes. visible m \<and> meshHitOK r m h)"
  from assms have fin: "fst ?fin = Some h" by (simp add: raycast_def)
  have "loopState ?P ?fin"
    by (rule sceneLoop_state) (use raycastMesh_Some in \<open>auto simp: loopState_def\<close>)
  with fin have st: "?fin = (Some h, Some (distance h))" and P: "?P h"
    by (auto simp: loopState_def)
  have "distance h \<le> d"
    if m: "m \<in> set meshes" "visible m" and tri: "tri \<in> set (indices (geometry m))"
      and hit: "triangleHit r m tri = Some (d, p)" for m tri d p
  proof -
    from m(2) tri hit have "raycastMesh r m \<noteq> None"
      by (auto simp: raycastMesh_None)
    then obtain h' where h': "raycastMesh r m = Some h'" by auto
    from raycastMesh_Some[OF h'] tri hit have le1: "distance h' \<le> d" by blast
    from sceneLoop_le[OF m(1) h', where st = "(None, None)"] st have "distance h \<le> distance h'"
      by simp
    with le1 show ?thesis by simp
  qed
  with P show ?thesis by blast
qed

lemma raycast_None:
  assumes "raycast r meshes = None"
  shows "\<forall>m\<in>set meshes. visible m \<longrightarrow>
           (\<forall>tri\<in>set (indices (geometry m)). triangleHit r m tri = None)"
proof (intro ballI impI)
  fix m tri
  assume m: "m \<in> set meshes" "visible m" and tri: "tri \<in> set (indices (geometry m))"
  let ?fin = "foldl (raycastStep r) (None, None) meshes"
  have st: "loopState (\<lambda>_. True) ?fin"
    by (rule sceneLoop_state) (auto simp: loopState_def)
  from assms have fin: "fst ?fin = None" by (simp add: raycast_def)
  show "triangleHit r m tri = None"
  proof (rule ccontr)
    assume "triangleHit r m tri \<noteq> None"
    with m(2) tri have "raycastMesh r m \<noteq> None" by (auto simp: raycastMesh_None)
    then obtain h' where h': "raycastMesh r m = Some h'" by auto
    from sceneLoop_le[OF m(1) h', where st = "(None, None)"]
    obtain c' where "snd ?fin = Some c'" by auto
    with st fin show False by (auto simp: loopState_def)
  qed
qed

text \<open>
  C6. \<open>raycast\<close> never fails: it returns \<open>None\<close> or a hit. It returns \<open>None\<close>
  exactly when no triangle of a visible mesh is hit. A hit it returns reports a triangle
  of a visible mesh of the scene, its distance is positive (above the threshold of the
  intersection test), and no triangle of any visible mesh is hit at a smaller distance.
  Invisible meshes take no part.
\<close>

theorem raycast_closest_hit:
  "case raycast r meshes of
     None \<Rightarrow>
       (\<forall>m\<in>set meshes. visible m \<longrightarrow>
          (\<forall>tri\<in>set (indices (geometry m)). triangleHit r m tri = None))
   | Some h \<Rightarrow>
       rayEPSILON < distance h \<and> (\<exists>m\<in>set meshes. visible m \<and> meshHitOK r m h) \<and>
       (\<forall>m\<in>set meshes. visible m \<longrightarrow>
          (\<forall>tri\<in>set (indices (geometry m)). \<forall>d p.
             triangleHit r m tri = Some (d, p) \<longrightarrow> distance h \<le> d))"
proof (cases "raycast r meshes")
  case None
  with raycast_None[OF None] show ?thesis by simp
next
  case (Some h)
  with raycast_Some[OF Some] show ?thesis by simp
qed

lemma triangleHit_example:
  "triangleHit downRay (mkMesh n vis (triangleAt h)) (0, 1, 2) =
     (if 5 - h > rayEPSILON then Some (5 - h, Vec3 0 0 h) else None)"
  by (simp add: triangleHit_def mkMesh_sel triangleAt_sel identityTransform_def downRay_def
      rayTriangleIntersect_def vertexAt_def transformPoint_def vec3Add_def vec3Sub_def
      vec3Cross_def vec3Dot_def vec3Scale_def Let_def rayEPSILON_def field_simps)

lemma raycastMesh_example:
  "raycastMesh downRay (mkMesh n vis (triangleAt h)) =
     (if vis \<and> 5 - h > rayEPSILON
      then Some \<lparr>hitMeshId = n, distance = 5 - h, point = Vec3 0 0 h, faceIndex = 0,
                  vertexIndex = None\<rparr>
      else None)"
  by (simp add: raycastMesh_def raycastMeshStep_def triangleHit_example closer_def
        enumerate_eq_zip mkMesh_sel triangleAt_sel)

lemma raycast_example:
  "raycast downRay pickScene =
     Some \<lparr>hitMeshId = ''mid'', distance = 4, point = Vec3 0 0 1, faceIndex = 0, vertexIndex = None\<rparr>"
  by (simp add: raycast_def pickScene_def raycastStep_def raycastMesh_example closer_def
      rayEPSILON_def)

theorem raycast_closest_hit_witness:
  "raycast downRay pickScene =
     Some \<lparr>hitMeshId = ''mid'', distance = 4, point = Vec3 0 0 1, faceIndex = 0, vertexIndex = None\<rparr>
   \<and> rayEPSILON < 4
   \<and> triangleHit downRay (mkMesh ''low'' True (triangleAt 0)) (0, 1, 2) = Some (5, Vec3 0 0 0)
   \<and> (4::real) \<le> 5"
  using raycast_closest_hit[where r = downRay and meshes = pickScene]
  by (simp add: raycast_example triangleHit_example rayEPSILON_def)

subsection \<open>Subdivide: triangle counts\<close>

lemma splitTriangle_length:
  "length (snd (splitTriangle acc t)) = length (snd acc) + 4"
  by (simp add: splitTriangle_def split: prod.splits)

lemma splitLoop_length:
  "length (snd (foldl splitTriangle acc ts)) = length (snd acc) + 4 * length ts"
  by (induction ts arbitrary: acc) (simp_all add: splitTriangle_length)

lemma subdivideOnce_triangles:
  "length (indices (geometry (subdivideOnce mesh sm))) = 4 * length (indices (geometry mesh))"
proof -
  obtain st nis where fin: "foldl splitTriangle
      (\<lparr>sVertices = vertices (geometry mesh), sNormals = normals (geometry mesh),
        sUvs = uvs (geometry mesh), midpointMap = Map.empty\<rparr>, []) (indices (geometry mesh)) = (st, nis)"
    by (cases "foldl splitTriangle
      (\<lparr>sVertices = vertices (geometry mesh), sNormals = normals (geometry mesh),
        sUvs = uvs (geometry mesh), midpointMap = Map.empty\<rparr>, []) (indices (geometry mesh))") 
  have "length nis = 4 * length (indices (geometry mesh))"
    using splitLoop_length[of "(\<lparr>sVertices = vertices (geometry mesh), sNormals = normals (geometry mesh),
        sUvs = uvs (geometry mesh), midpointMap = Map.empty\<rparr>, [])" "indices (geometry mesh)"]
    by (simp add: fin)
  then show ?thesis
    by (simp add: subdivideOnce_def Let_def fin toUint16Array_def)
qed

text \<open>
  C7. With \<open>iterations = 0\<close> the loop of \<open>subdivide\<close> does not run and the
  input mesh is returned. Every pass writes four triangles for each triangle it reads,
  so two passes give 16 times the triangle count.
\<close>

theorem subdivide_counts:
  "subdivide mesh \<lparr>iterations = Some 0, smooth = sm\<rparr> = mesh \<and>
   length (indices (geometry (subdivide mesh \<lparr>iterations = Some 2, smooth = sm\<rparr>))) =
     16 * length (indices (geometry mesh))"
  by (simp add: subdivide_def Let_def numeral_2_eq_2 subdivideOnce_triangles)

theorem subdivide_counts_witness:
  "subdivide (mkMesh ''t'' True (triangleAt 0)) \<lparr>iterations = Some 0, smooth = Some False\<rparr> =
     mkMesh ''t'' True (triangleAt 0) \<and>
   length (indices (geometry
     (subdivide (mkMesh ''t'' True (triangleAt 0)) \<lparr>iterations = Some 2, smooth = Some False\<rparr>))) = 16"
  using subdivide_counts[of "mkMesh ''t'' True (triangleAt 0)" "Some False"]
  by (simp add: mkMesh_sel triangleAt_sel)

subsection \<open>Extrude: the edge list is not rebuilt\<close>

lemma vec3Normalize_up: "vec3Normalize (Vec3 0 0 1) = Vec3 0 0 1"
  by (simp add: vec3Normalize_def)

lemma triangleAt_edgesCanonical: "edgesCanonical (triangleAt h)"
  by (simp add: edgesCanonical_def triangleAt_def edgePair_def canonicalEdgeSet_def sidesOf_def
      readTri_def) (simp add: numeral_2_eq_2)

lemma extrude_example:
  "map_option (\<lambda>m. (indices (geometry m), edges (geometry m)))
     (case extrude (mkMesh ''t'' True (triangleAt 0)) [0]
             \<lparr>extrudeDistance = 1, useNormals = None\<rparr> of
        Inl e \<Rightarrow> None | Inr m \<Rightarrow> Some m) =
   Some ([(3, 4, 5), (0, 1, 4), (0, 4, 3), (1, 2, 5), (1, 5, 4), (2, 0, 3), (2, 3, 5)],
     [Edge (Some 0) (Some 1), Edge (Some 1) (Some 2), Edge (Some 0) (Some 2),
      Edge (Some 0) (Some 3), Edge (Some 1) (Some 4), Edge (Some 1) (Some 4),
      Edge (Some 2) (Some 5), Edge (Some 2) (Some 5), Edge (Some 0) (Some 3)])"
  by (simp add: extrude_def mkMesh_sel Let_def triangleAt_sel collectFace_def idxSetAdd_def
       cloneVertex_def vertexAt_def vec3Normalize_up vec3Scale_def remapFace_def
       remapTriangle_def mapped_def someTri_def readTri_def boundaryEdgesOf_def faceSides_def
       isShared_def addSide_def toUint16Array_def toUint16_def upt_conv_Cons)

text \<open>
  C1 (the code departs from the claim). The input is one triangle whose edge list is the
  canonical edge set of its index buffer; face 0 is extruded by 1. \<open>extrude\<close> copies
  the old edge list and appends two edges for every boundary edge; it does not rebuild
  the list from the final index buffer as the other operators do. In the result the
  edges \<open>(1,4)\<close>, \<open>(2,5)\<close> and \<open>(0,3)\<close> are stored twice, and the sides of the
  moved triangle \<open>(3,4,5)\<close> and the diagonals of the side quads are missing.
\<close>

theorem extrude_edges_not_canonical:
  "edgesCanonical (geometry (mkMesh ''t'' True (triangleAt 0))) \<and>
   (case extrude (mkMesh ''t'' True (triangleAt 0)) [0]
           \<lparr>extrudeDistance = 1, useNormals = None\<rparr> of
      Inl e \<Rightarrow> False
    | Inr m \<Rightarrow>
        indices (geometry m) =
          [(3, 4, 5), (0, 1, 4), (0, 4, 3), (1, 2, 5), (1, 5, 4), (2, 0, 3), (2, 3, 5)] \<and>
        edges (geometry m) =
          [Edge (Some 0) (Some 1), Edge (Some 1) (Some 2), Edge (Some 0) (Some 2),
           Edge (Some 0) (Some 3), Edge (Some 1) (Some 4), Edge (Some 1) (Some 4),
           Edge (Some 2) (Some 5), Edge (Some 2) (Some 5), Edge (Some 0) (Some 3)] \<and>
        \<not> distinct (edges (geometry m)) \<and>
        (3, 4) \<in> canonicalEdgeSet (indices (geometry m)) \<and>
        Edge (Some 3) (Some 4) \<notin> set (edges (geometry m)) \<and>
        \<not> edgesCanonical (geometry m))"
proof -
  obtain m where m: "extrude (mkMesh ''t'' True (triangleAt 0)) [0]
           \<lparr>extrudeDistance = 1, useNormals = None\<rparr> = Inr m"
    using extrude_example by (auto split: sum.splits)
  from extrude_example have
    ix: "indices (geometry m) =
          [(3, 4, 5), (0, 1, 4), (0, 4, 3), (1, 2, 5), (1, 5, 4), (2, 0, 3), (2, 3, 5)]" and
    es: "edges (geometry m) =
          [Edge (Some 0) (Some 1), Edge (Some 1) (Some 2), Edge (Some 0) (Some 2),
           Edge (Some 0) (Some 3), Edge (Some 1) (Some 4), Edge (Some 1) (Some 4),
           Edge (Some 2) (Some 5), Edge (Some 2) (Some 5), Edge (Some 0) (Some 3)]"
    by (simp_all add: m)
  have dup: "\<not> distinct (edges (geometry m))" by (simp add: es)
  have side: "(3, 4) \<in> canonicalEdgeSet (indices (geometry m))"
    by (simp add: ix canonicalEdgeSet_def sidesOf_def readTri_def)
  have missing: "Edge (Some 3) (Some 4) \<notin> set (edges (geometry m))" by (simp add: es)
  have "\<not> edgesCanonical (geometry m)" using dup by (simp add: edgesCanonical_def)
  with ix es dup side missing triangleAt_edgesCanonical show ?thesis
    by (simp add: m mkMesh_sel)
qed

subsection \<open>Loop cut\<close>

lemma addCutVertex_length:
  "length (snd (foldl (addCutVertex g k p q) acc is)) = length (snd acc) + length is"
  by (induction "is" arbitrary: acc) (simp_all add: addCutVertex_def Let_def)

lemma addCutVertex_map:
  "edgeVertexMap (fst (foldl (addCutVertex g k p q) acc is)) = edgeVertexMap (fst acc)"
  by (induction "is" arbitrary: acc) (simp_all add: addCutVertex_def Let_def)

lemma cutEdge_map:
  "edgeVertexMap (cutEdge g k bufs (p, q)) =
     (edgeVertexMap bufs)((min p q, max p q) \<mapsto>
        snd (foldl (addCutVertex g k p q) (bufs, []) [1..<k + 1]))"
  using addCutVertex_map[of g k p q "(bufs, [])" "[1..<k + 1]"]
  by (simp add: cutEdge_def Let_def case_prod_beta del: upt_Suc)

lemma cutEdge_lengths:
  assumes "\<forall>vs\<in>ran (edgeVertexMap bufs). length vs = k"
  shows "\<forall>vs\<in>ran (edgeVertexMap (cutEdge g k bufs e)). length vs = k"
proof
  fix vs assume vs: "vs \<in> ran (edgeVertexMap (cutEdge g k bufs e))"
  obtain p q where e: "e = (p, q)" by (cases e)
  define nv where "nv = snd (foldl (addCutVertex g k p q) (bufs, []) [1..<k + 1])"
  have len: "length nv = k"
    unfolding nv_def by (simp add: addCutVertex_length del: upt_Suc)
  have m: "edgeVertexMap (cutEdge g k bufs e) = (edgeVertexMap bufs)((min p q, max p q) \<mapsto> nv)"
    unfolding nv_def e by (rule cutEdge_map)
  from vs obtain key where "edgeVertexMap (cutEdge g k bufs e) key = Some vs"
    by (auto simp: ran_def)
  then have "vs = nv \<or> edgeVertexMap bufs key = Some vs"
    unfolding m by (simp split: if_splits)
  with len assms show "length vs = k" by (auto dest: ranI)
qed

lemma cutEdges_lengths:
  assumes "\<forall>vs\<in>ran (edgeVertexMap bufs). length vs = k"
  shows "\<forall>vs\<in>ran (edgeVertexMap (foldl (cutEdge g k) bufs es)). length vs = k"
  using assms
proof (induction es arbitrary: bufs)
  case Nil then show ?case by simp
next
  case (Cons e es)
  show ?case using Cons.IH[OF cutEdge_lengths[OF Cons.prems]] by simp
qed

lemma cutEntry_length:
  assumes "x \<in> set (case em (min p q, max p q) of None \<Rightarrow> []
             | Some vs \<Rightarrow> [((p, q), if p < q then vs else rev vs)])"
  shows "\<exists>vs\<in>ran em. length (snd x) = length vs"
proof (cases "em (min p q, max p q)")
  case None with assms show ?thesis by simp
next
  case (Some vs)
  then have "vs \<in> ran em" by (rule ranI)
  moreover from assms Some have "length (snd x) = length vs" by auto
  ultimately show ?thesis by blast
qed

lemma cutEdgesOf_lengths:
  assumes "\<forall>vs\<in>ran em. length vs = k" and "ce \<in> set (cutEdgesOf em t)"
  shows "length (snd ce) = k"
proof -
  obtain t0 t1 t2 where t: "t = (t0, t1, t2)" by (cases t)
  from assms(2) have "\<exists>vs\<in>ran em. length (snd ce) = length vs"
    unfolding cutEdgesOf_def t
    using cutEntry_length[where x = ce and em = em and p = t0 and q = t1]
      cutEntry_length[where x = ce and em = em and p = t1 and q = t2]
      cutEntry_length[where x = ce and em = em and p = t2 and q = t0]
    by simp blast
  with assms(1) show ?thesis by auto
qed

lemma fanTriangles_length:
  "1 \<le> length (snd ce) \<Longrightarrow> length (fanTriangles t ce) = length (snd ce) + 1"
  by (cases t; cases ce) (simp add: fanTriangles_def Let_def split: prod.splits)

lemma fanTriangles_apex:
  "tri \<in> set (fanTriangles t ce) \<Longrightarrow>
     fst tri = List.find (\<lambda>v. v \<noteq> fst (fst ce) \<and> v \<noteq> snd (fst ce)) [fst t, fst (snd t), snd (snd t)]"
  by (cases t; cases ce) (auto simp: fanTriangles_def Let_def split: prod.splits)

text \<open>
  With \<open>k \<ge> 1\<close> cuts, a triangle with exactly one cut edge is replaced by \<open>k + 1\<close>
  triangles, all with the vertex opposite the cut edge as their first corner.
\<close>

lemma loopCut_one_cut_fan:
  assumes "1 \<le> k"
    and "em = edgeVertexMap (foldl (cutEdge g k)
           \<lparr>lVertices = vs, lNormals = ns, lUvs = us, edgeVertexMap = Map.empty\<rparr> selectedEdges)"
    and "cutEdgesOf em t = [ce]"
  shows "length (cutTriangle k em t) = k + 1 \<and>
         (\<forall>tri\<in>set (cutTriangle k em t).
            fst tri = List.find (\<lambda>v. v \<noteq> fst (fst ce) \<and> v \<noteq> snd (fst ce))
                        [fst t, fst (snd t), snd (snd t)])"
proof -
  have "\<forall>xs\<in>ran em. length xs = k"
    unfolding assms(2) by (rule cutEdges_lengths) simp
  from cutEdgesOf_lengths[OF this, of ce t] have len: "length (snd ce) = k"
    by (simp add: assms(3))
  have ct: "cutTriangle k em t = fanTriangles t ce"
    by (simp add: cutTriangle_def assms(3))
  show ?thesis
    unfolding ct using fanTriangles_length[of ce t] fanTriangles_apex[of _ t ce] len assms(1)
    by auto
qed

lemma loopCut_example:
  "loopCut (mkMesh ''t'' True (triangleAt 0)) [(0, 1)] \<lparr>numberOfCuts = Some 0, smoothness = None\<rparr> =
     mkMesh ''t'' True
       \<lparr>gid = ''tri'',
        vertices = [-1, -1, 0,  1, -1, 0,  0, 1, 0],
        normals = [0, 0, 1,  0, 0, 1,  0, 0, 1],
        uvs = [0, 0,  1, 0,  0, 1],
        indices = [(2, 0, 0), (2, 0, 1)],
        vertexCount = 3,
        edges = [Edge (Some 0) (Some 2), Edge None None, Edge (Some 1) (Some 2)],
        faces = [\<lparr>fvertices = [Some 2, Some 0, None], fnormal = Vec3 0 0 1\<rparr>,
                 \<lparr>fvertices = [Some 2, None, Some 1], fnormal = Vec3 0 0 1\<rparr>]\<rparr>"
  by (simp add: loopCut_def mkMesh_def Let_def triangleAt_def cutEdge_def cutEdgesOf_def
      readTri_def cutTriangle_def fanTriangles_def elemAt_def atLast_def toUint16Array_def toUint16_def
      rebuildEdges_def addTriEdges_def addEdge_def mathMin_def mathMax_def rebuildFaces_def
      vertexAt_def)
text \<open>
  C4 (the code departs from the claim). With \<open>numberOfCuts = 0\<close> every selected edge
  still gets an entry in \<open>edgeVertexMap\<close>, the empty array, and the test
  \<open>if (edgeNewVerts)\<close> accepts it. A triangle with one selected edge then takes the fan
  branch, which pushes \<open>(c, a, undefined)\<close> and \<open>(c, undefined, b)\<close>. On one
  triangle \<open>(0, 1, 2)\<close> with the edge \<open>(0, 1)\<close> selected, the result has two
  triangles, \<open>(2, 0, 0)\<close> and \<open>(2, 0, 1)\<close> once the index buffer has turned
  \<open>undefined\<close> into 0, an edge \<open>(NaN, NaN)\<close>, and is not the input.
\<close>

theorem loopCut_zero_cuts_not_noop:
  "indices (geometry (loopCut (mkMesh ''t'' True (triangleAt 0)) [(0, 1)]
       \<lparr>numberOfCuts = Some 0, smoothness = None\<rparr>)) = [(2, 0, 0), (2, 0, 1)] \<and>
   edges (geometry (loopCut (mkMesh ''t'' True (triangleAt 0)) [(0, 1)]
       \<lparr>numberOfCuts = Some 0, smoothness = None\<rparr>)) =
     [Edge (Some 0) (Some 2), Edge None None, Edge (Some 1) (Some 2)] \<and>
   loopCut (mkMesh ''t'' True (triangleAt 0)) [(0, 1)]
       \<lparr>numberOfCuts = Some 0, smoothness = None\<rparr> \<noteq> mkMesh ''t'' True (triangleAt 0)"
  by (simp only: loopCut_example) (simp add: mkMesh_def triangleAt_def)

subsection \<open>Sculpt: undo restores the snapshot\<close>

lemma applyBrushStep_length: "length (applyBrushStep s ns es h d sgnv af vs ad) = length vs"
  by (simp add: applyBrushStep_def Let_def)

lemma applyBrushLoop_length:
  "length (foldl (applyBrushStep s ns es h d sgnv af) vs ads) = length vs"
  by (induction ads arbitrary: vs) (simp_all add: applyBrushStep_length)

lemma applyBrush_inv: "strokeInv orig e \<Longrightarrow> strokeInv orig (applyBrush e h d sgnv)"
  by (auto simp: strokeInv_def applyBrush_def Let_def setVertices_def applyBrushLoop_length)

lemma updateStroke_inv: "strokeInv orig e \<Longrightarrow> strokeInv orig (updateStroke e h d)"
proof -
  assume inv0: "strokeInv orig e"
  have brush_upd: "strokeInv orig (x\<lparr>brush := b\<rparr>)" if "strokeInv orig x" for x :: "'m sculptEngine" and b
    using that by (simp add: strokeInv_def)
  show ?thesis
    unfolding updateStroke_def Let_def
    by (auto intro!: brush_upd applyBrush_inv inv0)
qed

lemma stroke_inv:
  "strokeInv orig e \<Longrightarrow> strokeInv orig (foldl (\<lambda>s hd. updateStroke s (fst hd) (snd hd)) e moves)"
  by (induction moves arbitrary: e) (simp_all add: updateStroke_inv)

lemma beginStroke_inv:
  "engineMesh e = Some m \<Longrightarrow> strokeInv (vertices (geometry m)) (beginStroke e hit)"
  by (simp add: beginStroke_def strokeInv_def Let_def)

lemma recalculateNormals_vertices:
  "engineMesh e = Some m \<Longrightarrow>
     \<exists>m'. engineMesh (recalculateNormals e) = Some m' \<and>
          vertices (geometry m') = vertices (geometry m)"
  by (simp add: recalculateNormals_def Let_def setNormals_def)

text \<open>
  C8. For an engine with a bound mesh, after \<open>beginStroke\<close> and any sequence of
  \<open>updateStroke\<close> calls, \<open>undoStroke\<close> returns without error and the vertex buffer of
  the bound mesh is, entry for entry, the buffer the mesh had when \<open>beginStroke\<close> was
  called.
\<close>

theorem undoStroke_restores:
  assumes "engineMesh e = Some m"
  shows "\<exists>e' m'. undoStroke (stroke e hit moves) = Inr e' \<and> engineMesh e' = Some m' \<and>
           vertices (geometry m') = vertices (geometry m)"
proof -
  let ?orig = "vertices (geometry m)"
  have "strokeInv ?orig (stroke e hit moves)"
    unfolding stroke_def by (rule stroke_inv[OF beginStroke_inv[OF assms]])
  then obtain m1 where ov: "originalVertices (stroke e hit moves) = Some ?orig"
    and m1: "engineMesh (stroke e hit moves) = Some m1"
    and len: "length (vertices (geometry m1)) = length ?orig"
    by (auto simp: strokeInv_def)
  have set: "typedArraySet (vertices (geometry m1)) ?orig = Inr ?orig"
    by (simp add: typedArraySet_def len)
  have "undoStroke (stroke e hit moves) =
          Inr (recalculateNormals ((stroke e hit moves)\<lparr>engineMesh := Some (setVertices m1 ?orig)\<rparr>))"
    by (simp add: undoStroke_def ov m1 set)
  moreover have "\<exists>m'. engineMesh (recalculateNormals
         ((stroke e hit moves)\<lparr>engineMesh := Some (setVertices m1 ?orig)\<rparr>)) = Some m' \<and>
       vertices (geometry m') = vertices (geometry (setVertices m1 ?orig))"
    by (rule recalculateNormals_vertices) simp
  ultimately show ?thesis by (auto simp: setVertices_def)
qed

theorem undoStroke_restores_witness:
  "engineMesh (setMesh newEngine (mkMesh ''t'' True (triangleAt 0))) =
     Some (mkMesh ''t'' True (triangleAt 0)) \<and>
   (\<exists>e' m'. undoStroke (stroke (setMesh newEngine (mkMesh ''t'' True (triangleAt 0)))
                     (Vec3 0 1 0) [(Vec3 0 1 0, Vec3 0 0 1), (Vec3 0 1 1, Vec3 0 0 1)]) = Inr e' \<and>
      engineMesh e' = Some m' \<and>
      vertices (geometry m') = [-1, -1, 0,  1, -1, 0,  0, 1, 0])"
proof -
  have b: "engineMesh (setMesh newEngine (mkMesh ''t'' True (triangleAt 0))) =
     Some (mkMesh ''t'' True (triangleAt 0))"
    by (simp add: setMesh_def)
  from undoStroke_restores[OF b, of "Vec3 0 1 0" "[(Vec3 0 1 0, Vec3 0 0 1), (Vec3 0 1 1, Vec3 0 0 1)]"]
  show ?thesis by (simp add: b mkMesh_sel triangleAt_sel)
qed

subsection \<open>Decimate: the collapse loop\<close>

lemma considerEdge_keeps: "best \<noteq> None \<Longrightarrow> considerEdge st best e \<noteq> None"
  by (cases e) (auto simp: considerEdge_def Let_def)

lemma findBestLoop_keeps: "best \<noteq> None \<Longrightarrow> foldl (considerEdge st) best es \<noteq> None"
proof (induction es arbitrary: best)
  case Nil then show ?case by simp
next
  case (Cons e es)
  from Cons.IH[OF considerEdge_keeps[OF Cons.prems]] show ?case by simp
qed

lemma considerEdge_candidate:
  "fst e \<notin> removedVertices st \<Longrightarrow> snd e \<notin> removedVertices st \<Longrightarrow> considerEdge st best e \<noteq> None"
  by (cases e; cases best) (auto simp: considerEdge_def Let_def)

lemma findBestEdge_candidate:
  assumes "e \<in> set (cEdges st)" "fst e \<notin> removedVertices st" "snd e \<notin> removedVertices st"
  shows "findBestEdge st \<noteq> None"
proof -
  from assms(1) obtain pre post where es: "cEdges st = pre @ e # post"
    by (auto simp: in_set_conv_decomp)
  have "considerEdge st (foldl (considerEdge st) None pre) e \<noteq> None"
    by (rule considerEdge_candidate[OF assms(2,3)])
  then show ?thesis
    by (simp add: findBestEdge_def es findBestLoop_keeps)
qed

lemma replace_side:
  assumes "sideIn es p q" "replaceVertex v1 v2 p \<noteq> replaceVertex v1 v2 q"
  shows "sideIn (filter (\<lambda>(p, q). p \<noteq> q)
                  (map (\<lambda>(p, q). (replaceVertex v1 v2 p, replaceVertex v1 v2 q)) es))
           (replaceVertex v1 v2 p) (replaceVertex v1 v2 q)"
  using assms by (force simp: sideIn_def)

lemma collapse_faces_ok:
  assumes "list_all (sidesIn (cEdges st)) (cFaces st)"
  shows "list_all (\<lambda>f. \<not> degenerate f \<and> sidesIn (cEdges (collapseEdge st v1 v2 pos)) f)
           (cFaces (collapseEdge st v1 v2 pos))"
proof -
  have "sidesIn (cEdges (collapseEdge st v1 v2 pos))
          (replaceVertex v1 v2 p, replaceVertex v1 v2 q, replaceVertex v1 v2 r)"
    if f: "(p, q, r) \<in> set (cFaces st)"
      and nd: "\<not> degenerate (replaceVertex v1 v2 p, replaceVertex v1 v2 q, replaceVertex v1 v2 r)"
    for p q r
  proof -
    from assms f have s: "sideIn (cEdges st) p q" "sideIn (cEdges st) q r" "sideIn (cEdges st) r p"
      by (auto simp: list_all_iff sidesIn_def)
    from nd have ne: "replaceVertex v1 v2 p \<noteq> replaceVertex v1 v2 q"
      "replaceVertex v1 v2 q \<noteq> replaceVertex v1 v2 r" "replaceVertex v1 v2 r \<noteq> replaceVertex v1 v2 p"
      by (auto simp: degenerate_def)
    show ?thesis
      using replace_side[OF s(1) ne(1)] replace_side[OF s(2) ne(2)] replace_side[OF s(3) ne(3)]
      by (simp add: sidesIn_def collapseEdge_def)
  qed
  then show ?thesis
    by (auto simp: list_all_iff collapseEdge_def)
qed

lemma collapse_inv0:
  assumes "collapseInv0 vc st" and "findBestEdge st = Some (err, (v1, v2), pos)"
  shows "collapseInv1 vc (collapseEdge st v1 v2 pos)"
proof -
  from findBestEdge_mem[OF assms(2)] have mem: "(v1, v2) \<in> set (cEdges st)" by simp
  from assms(1) have R: "removedVertices st = {}"
    and E: "list_all (\<lambda>e. fst e < vc \<and> snd e < vc) (cEdges st)"
    and F: "list_all (sidesIn (cEdges st)) (cFaces st)"
    by (auto simp: collapseInv0_def)
  from E mem have v: "v1 < vc" "v2 < vc" by (auto simp: list_all_iff)
  have e': "list_all (\<lambda>e. fst e < vc \<and> snd e < vc \<and> fst e \<noteq> snd e \<and>
                       fst e \<notin> removedVertices (collapseEdge st v1 v2 pos) - {v2} \<and>
                       snd e \<notin> removedVertices (collapseEdge st v1 v2 pos) - {v2})
              (cEdges (collapseEdge st v1 v2 pos))"
    using E v by (auto simp: list_all_iff collapseEdge_def R replaceVertex_def)
  have r': "removedVertices (collapseEdge st v1 v2 pos) \<subseteq> {..<vc}"
    using v by (simp add: collapseEdge_def R)
  show ?thesis
    unfolding collapseInv1_def using r' e' collapse_faces_ok[OF F] by blast
qed

lemma collapse_inv1:
  assumes "collapseInv1 vc st" and "findBestEdge st = Some (err, (v1, v2), pos)"
  shows "collapseInv1 vc (collapseEdge st v1 v2 pos)"
proof -
  from findBestEdge_mem[OF assms(2)] have mem: "(v1, v2) \<in> set (cEdges st)"
    and nr: "v1 \<notin> removedVertices st" "v2 \<notin> removedVertices st" by simp_all
  from assms(1) obtain a where R: "removedVertices st \<subseteq> {..<vc}"
    and E: "list_all (\<lambda>e. fst e < vc \<and> snd e < vc \<and> fst e \<noteq> snd e \<and>
                       fst e \<notin> removedVertices st - {a} \<and>
                       snd e \<notin> removedVertices st - {a}) (cEdges st)"
    and F: "list_all (\<lambda>f. \<not> degenerate f \<and> sidesIn (cEdges st) f) (cFaces st)"
    by (auto simp: collapseInv1_def)
  from E mem have v: "v1 < vc" "v2 < vc" "v1 \<noteq> v2" by (auto simp: list_all_iff)
  have e': "list_all (\<lambda>e. fst e < vc \<and> snd e < vc \<and> fst e \<noteq> snd e \<and>
                       fst e \<notin> removedVertices (collapseEdge st v1 v2 pos) - {a} \<and>
                       snd e \<notin> removedVertices (collapseEdge st v1 v2 pos) - {a})
              (cEdges (collapseEdge st v1 v2 pos))"
    using E v nr by (auto simp: list_all_iff collapseEdge_def replaceVertex_def split: if_splits)
  have r': "removedVertices (collapseEdge st v1 v2 pos) \<subseteq> {..<vc}"
    using v R by (simp add: collapseEdge_def)
  from F have F': "list_all (sidesIn (cEdges st)) (cFaces st)" by (auto simp: list_all_iff)
  show ?thesis
    unfolding collapseInv1_def using r' e' collapse_faces_ok[OF F'] by blast
qed

lemma collapse_inv:
  "collapseInv vc st \<Longrightarrow> findBestEdge st = Some (err, (v1, v2), pos) \<Longrightarrow>
     collapseInv vc (collapseEdge st v1 v2 pos)"
  unfolding collapseInv_def using collapse_inv0 collapse_inv1 by blast

lemma collapseInv_candidate:
  assumes "collapseInv vc st" and "cFaces st \<noteq> []"
  shows "findBestEdge st \<noteq> None"
proof -
  from assms(2) obtain p q r where f: "(p, q, r) \<in> set (cFaces st)"
    by (cases "cFaces st") auto
  from assms(1) show ?thesis unfolding collapseInv_def
  proof
    assume i0: "collapseInv0 vc st"
    then have "sideIn (cEdges st) p q" using f by (auto simp: collapseInv0_def list_all_iff sidesIn_def)
    then obtain e where "e \<in> set (cEdges st)" by (auto simp: sideIn_def)
    moreover from i0 have "removedVertices st = {}" by (simp add: collapseInv0_def)
    ultimately show ?thesis using findBestEdge_candidate[of e st] by simp
  next
    assume "collapseInv1 vc st"
    then obtain a where
      E: "list_all (\<lambda>e. fst e < vc \<and> snd e < vc \<and> fst e \<noteq> snd e \<and>
                       fst e \<notin> removedVertices st - {a} \<and>
                       snd e \<notin> removedVertices st - {a}) (cEdges st)"
      and F: "list_all (\<lambda>f. \<not> degenerate f \<and> sidesIn (cEdges st) f) (cFaces st)"
      by (auto simp: collapseInv1_def)
    from F f have nd: "p \<noteq> q" "q \<noteq> r" "r \<noteq> p"
      and s: "sideIn (cEdges st) p q" "sideIn (cEdges st) q r" "sideIn (cEdges st) r p"
      by (auto simp: list_all_iff degenerate_def sidesIn_def)
    have live: "findBestEdge st \<noteq> None" if "sideIn (cEdges st) x y" "x \<noteq> a" "y \<noteq> a" for x y
    proof -
      from that(1) obtain e where e: "e \<in> set (cEdges st)" "e = (x, y) \<or> e = (y, x)"
        by (auto simp: sideIn_def)
      with E that(2,3) have "fst e \<notin> removedVertices st" "snd e \<notin> removedVertices st"
        by (auto simp: list_all_iff)
      with e(1) show ?thesis by (rule findBestEdge_candidate)
    qed
    from nd have "(p \<noteq> a \<and> q \<noteq> a) \<or> (q \<noteq> a \<and> r \<noteq> a) \<or> (r \<noteq> a \<and> p \<noteq> a)" by auto
    with live s show ?thesis by blast
  qed
qed

lemma collapseInv_removed: "collapseInv vc st \<Longrightarrow> removedVertices st \<subseteq> {..<vc}"
  by (auto simp: collapseInv_def collapseInv0_def collapseInv1_def)

lemma collapseInv_edge_bound:
  "collapseInv vc st \<Longrightarrow> (v1, v2) \<in> set (cEdges st) \<Longrightarrow> v2 < vc"
  by (auto simp: collapseInv_def collapseInv0_def collapseInv1_def list_all_iff)

lemma collapseLoop_reaches_target:
  assumes "collapseInv vc st" and "0 \<le> tgt"
  shows "int (length (cFaces (collapseLoop tgt st))) \<le> tgt"
  using assms
proof (induction tgt st rule: collapseLoop.induct)
  case (1 tgt st)
  show ?case
  proof (cases "int (length (cFaces st)) > tgt")
    case False
    then show ?thesis by (simp add: collapseLoop.simps[of tgt st])
  next
    case True
    with "1.prems"(2) have "cFaces st \<noteq> []" by auto
    from collapseInv_candidate[OF "1.prems"(1) this]
    obtain err v1 v2 pos where best: "findBestEdge st = Some (err, (v1, v2), pos)"
      by (cases "findBestEdge st") auto
    have "int (length (cFaces (collapseLoop tgt (collapseEdge st v1 v2 pos)))) \<le> tgt"
      by (rule "1.IH"[OF True best refl refl refl collapse_inv[OF "1.prems"(1) best] "1.prems"(2)])
    then show ?thesis using True best by (simp add: collapseLoop.simps[of tgt st])
  qed
qed

lemma collapseRounds_bound:
  assumes "collapseInv vc st" and "0 \<le> tgt"
  shows "collapseRounds tgt st + card (removedVertices st) \<le> vc"
  using assms
proof (induction tgt st rule: collapseRounds.induct)
  case (1 tgt st)
  have fin: "finite (removedVertices st)" and cardR: "card (removedVertices st) \<le> vc"
    using collapseInv_removed[OF "1.prems"(1)]
    by (auto intro: finite_subset dest: subset_eq_atLeast0_lessThan_card simp: lessThan_atLeast0)
  show ?case
  proof (cases "int (length (cFaces st)) > tgt")
    case False
    then show ?thesis using cardR by (simp add: collapseRounds.simps[of tgt st])
  next
    case True
    with "1.prems"(2) have "cFaces st \<noteq> []" by auto
    from collapseInv_candidate[OF "1.prems"(1) this]
    obtain err v1 v2 pos where best: "findBestEdge st = Some (err, (v1, v2), pos)"
      by (cases "findBestEdge st") auto
    from findBestEdge_mem[OF best] have nr: "v2 \<notin> removedVertices st" by simp
    have "collapseRounds tgt (collapseEdge st v1 v2 pos)
            + card (removedVertices (collapseEdge st v1 v2 pos)) \<le> vc"
      by (rule "1.IH"[OF True best refl refl refl collapse_inv[OF "1.prems"(1) best] "1.prems"(2)])
    moreover have "card (removedVertices (collapseEdge st v1 v2 pos)) = card (removedVertices st) + 1"
      using nr fin by (simp add: collapseEdge_def)
    ultimately show ?thesis using True best by (simp add: collapseRounds.simps[of tgt st])
  qed
qed


lemma addCollapseEdge_set:
  "set (addCollapseEdge es p q) = insert (min p q, max p q) (set es)"
  by (auto simp: addCollapseEdge_def)

lemma addFaceEdges_set:
  "set (addFaceEdges es (p, q, r)) =
     {(min p q, max p q), (min q r, max q r), (min r p, max r p)} \<union> set es"
  by (auto simp: addFaceEdges_def addCollapseEdge_set)

lemma faceEdges_set:
  "set (foldl addFaceEdges es fs) =
     set es \<union> (\<Union>(p, q, r)\<in>set fs. {(min p q, max p q), (min q r, max q r), (min r p, max r p)})"
proof (induction fs arbitrary: es)
  case Nil then show ?case by simp
next
  case (Cons f fs)
  obtain p q r where f: "f = (p, q, r)" by (cases f)
  show ?case by (simp add: Cons.IH f addFaceEdges_set)
qed

lemma sideIn_minmax: "(min p q, max p q) \<in> set es \<Longrightarrow> sideIn es p q"
  by (auto simp: sideIn_def min_def max_def split: if_splits)

lemma initial_inv0:
  assumes "\<not> list_ex (\<lambda>(i0, i1, i2). \<not> i0 < vc \<or> \<not> i1 < vc \<or> \<not> i2 < vc) fs"
  shows "collapseInv0 vc \<lparr>cVertices = vs, cFaces = fs, cQuadrics = qs,
                            cEdges = foldl addFaceEdges [] fs, removedVertices = {}\<rparr>"
proof -
  let ?es = "foldl addFaceEdges [] fs"
  from assms have b: "p < vc \<and> q < vc \<and> r < vc" if "(p, q, r) \<in> set fs" for p q r
    using that by (auto simp: list_ex_iff)
  have "fst e < vc \<and> snd e < vc" if "e \<in> set ?es" for e
    using that b by (auto simp: faceEdges_set min_def max_def split: if_splits)
  moreover have "sidesIn ?es f" if "f \<in> set fs" for f
  proof -
    obtain p q r where f: "f = (p, q, r)" by (cases f)
    with that have "(min p q, max p q) \<in> set ?es" "(min q r, max q r) \<in> set ?es"
      "(min r p, max r p) \<in> set ?es"
      by (auto simp: faceEdges_set)
    then show ?thesis by (simp add: f sidesIn_def sideIn_minmax)
  qed
  ultimately show ?thesis by (simp add: collapseInv0_def list_all_iff)
qed

lemma toUint16Array_length: "length (toUint16Array ts) = length ts"
  by (simp add: toUint16Array_def)

lemma decimateRounds_bound:
  "decimateRounds mesh r \<le> vertexCount (geometry mesh)"
proof -
  let ?g = "geometry mesh"
  let ?fs = "map readTri (indices ?g)"
  show ?thesis
  proof (cases "list_ex (\<lambda>(i0, i1, i2). \<not> i0 < vertexCount ?g \<or> \<not> i1 < vertexCount ?g \<or>
                                      \<not> i2 < vertexCount ?g) ?fs")
    case True
    then show ?thesis by (simp add: decimateRounds_def Let_def)
  next
    case False
    from initial_inv0[OF False] have "collapseInv (vertexCount ?g)
       \<lparr>cVertices = map (vertexAt (vertices ?g)) [0..<vertexCount ?g], cFaces = ?fs,
        cQuadrics = foldl (addFaceQuadric (map (vertexAt (vertices ?g)) [0..<vertexCount ?g]))
                      (replicate (vertexCount ?g) createQuadric) ?fs,
        cEdges = foldl addFaceEdges [] ?fs, removedVertices = {}\<rparr>"
      by (simp add: collapseInv_def)
    from collapseRounds_bound[OF this, of "max 4 \<lfloor>real (length (indices ?g)) * r\<rfloor>"]
    show ?thesis using False by (simp add: decimateRounds_def Let_def)
  qed
qed

text \<open>
  C10. The collapse loop of \<open>decimateCollapse\<close> is a total function: it is defined by
  recursion on the length of the edge list, which every round that does not break
  makes shorter. A round that finds a candidate edge \<open>(v1, v2)\<close> finds both ends
  unremoved and adds \<open>v2\<close> to the removed set, and on every mesh the body of the loop
  is entered at most \<open>vertexCount\<close> times (not at all when an index is out of range
  and the function throws before the loop).
\<close>

theorem decimate_collapse_terminates:
  "decimateRounds mesh r \<le> vertexCount (geometry mesh) \<and>
   (\<forall>st err v1 v2 pos. findBestEdge st = Some (err, (v1, v2), pos) \<longrightarrow>
      v1 \<notin> removedVertices st \<and> v2 \<notin> removedVertices st \<and>
      removedVertices (collapseEdge st v1 v2 pos) = insert v2 (removedVertices st))"
proof -
  have "v1 \<notin> removedVertices st \<and> v2 \<notin> removedVertices st \<and>
        removedVertices (collapseEdge st v1 v2 pos) = insert v2 (removedVertices st)"
    if "findBestEdge st = Some (err, (v1, v2), pos)" for st err v1 v2 pos
    using findBestEdge_mem[OF that] by (simp add: collapseEdge_def)
  with decimateRounds_bound[of mesh r] show ?thesis by blast
qed

text \<open>
  C2 (amended). On a mesh with more than four triangles whose indices are all below
  \<open>vertexCount\<close>, \<open>decimate\<close> with \<open>ratio = 0\<close> in collapse mode returns a mesh
  with at most four triangles. The loop stops as soon as the count is no longer above
  the target, and one collapse removes every triangle that holds both ends of the edge,
  so the count can pass below four.
\<close>

theorem decimate_ratio_zero_at_most_four:
  assumes "list_all (\<lambda>(i0, i1, i2). unat i0 < vertexCount (geometry mesh) \<and>
             unat i1 < vertexCount (geometry mesh) \<and> unat i2 < vertexCount (geometry mesh))
             (indices (geometry mesh))"
    and "length (indices (geometry mesh)) > 4"
  shows "\<exists>m. decimate mesh \<lparr>ratio = 0, mode = Collapse, symmetry = sy, symmetryAxis = ax\<rparr> = Inr m \<and>
              length (indices (geometry m)) \<le> 4"
proof -
  let ?g = "geometry mesh"
  let ?fs = "map readTri (indices ?g)"
  let ?st0 = "\<lparr>cVertices = map (vertexAt (vertices ?g)) [0..<vertexCount ?g], cFaces = ?fs,
        cQuadrics = foldl (addFaceQuadric (map (vertexAt (vertices ?g)) [0..<vertexCount ?g]))
                      (replicate (vertexCount ?g) createQuadric) ?fs,
        cEdges = foldl addFaceEdges [] ?fs, removedVertices = {}\<rparr>"
  from assms(1) have ok: "\<not> list_ex (\<lambda>(i0, i1, i2). \<not> i0 < vertexCount ?g \<or> \<not> i1 < vertexCount ?g \<or>
                                      \<not> i2 < vertexCount ?g) ?fs"
    by (auto simp: list_all_iff list_ex_iff readTri_def)
  from initial_inv0[OF ok] have inv: "collapseInv (vertexCount ?g) ?st0"
    by (simp add: collapseInv_def)
  from collapseLoop_reaches_target[OF inv, of 4]
  have le: "length (cFaces (collapseLoop 4 ?st0)) \<le> 4" by simp
  show ?thesis
    using ok le
    by (simp add: decimate_def decimateCollapse_def Let_def toUint16Array_length)
qed


subsection \<open>Decimate on the flat patch\<close>

lemma addQ: "addQuadric (upQ k) (upQ l) = upQ (k + l)"
  by (simp add: addQuadric_def upQ_def)

lemma planeQ_flat:
  assumes "vz p0 = 0" "vz p1 = 0" "vz p2 = 0"
    and "(vx p1 - vx p0) * (vy p2 - vy p0) - (vy p1 - vy p0) * (vx p2 - vx p0) = 1"
  shows "quadricFromPlane (vec3Normalize (vec3Cross (vec3Sub p1 p0) (vec3Sub p2 p0)))
           (- vec3Dot (vec3Normalize (vec3Cross (vec3Sub p1 p0) (vec3Sub p2 p0))) p0) = upQ 1"
proof -
  have "vec3Cross (vec3Sub p1 p0) (vec3Sub p2 p0) = Vec3 0 0 1"
    using assms by (simp add: vec3Cross_def vec3Sub_def)
  then show ?thesis
    using assms(1) by (simp add: vec3Normalize_up vec3Dot_def quadricFromPlane_def upQ_def)
qed

lemma faceQ:
  assumes "vz (vs ! i0) = 0" "vz (vs ! i1) = 0" "vz (vs ! i2) = 0"
    and "(vx (vs ! i1) - vx (vs ! i0)) * (vy (vs ! i2) - vy (vs ! i0)) -
         (vy (vs ! i1) - vy (vs ! i0)) * (vx (vs ! i2) - vx (vs ! i0)) = 1"
  shows "addFaceQuadric vs qs (i0, i1, i2) =
     (let qs1 = qs[i0 := addQuadric (qs ! i0) (upQ 1)];
          qs2 = qs1[i1 := addQuadric (qs1 ! i1) (upQ 1)]
      in qs2[i2 := addQuadric (qs2 ! i2) (upQ 1)])"
  using planeQ_flat[OF assms] by (simp add: addFaceQuadric_def Let_def)

lemma f1: "addFaceQuadric patchVs [upQ a, upQ b, upQ c, upQ d, upQ e, upQ f] (0, Suc 0, 2) =
    [upQ (a+1), upQ (b+1), upQ (c+1), upQ d, upQ e, upQ f]"
  by (subst faceQ) (simp_all add: patchVs_def addQ Let_def)
lemma f2: "addFaceQuadric patchVs [upQ a, upQ b, upQ c, upQ d, upQ e, upQ f] (Suc 0, 0, 3) =
    [upQ (a+1), upQ (b+1), upQ c, upQ (d+1), upQ e, upQ f]"
  by (subst faceQ) (simp_all add: patchVs_def addQ Let_def)
lemma f3: "addFaceQuadric patchVs [upQ a, upQ b, upQ c, upQ d, upQ e, upQ f] (Suc 0, 4, 2) =
    [upQ a, upQ (b+1), upQ (c+1), upQ d, upQ (e+1), upQ f]"
  by (subst faceQ) (simp_all add: patchVs_def addQ Let_def)
lemma f4: "addFaceQuadric patchVs [upQ a, upQ b, upQ c, upQ d, upQ e, upQ f] (Suc 0, 3, 5) =
    [upQ a, upQ (b+1), upQ c, upQ (d+1), upQ e, upQ (f+1)]"
  by (subst faceQ) (simp_all add: patchVs_def addQ Let_def)
lemma f5: "addFaceQuadric patchVs [upQ a, upQ b, upQ c, upQ d, upQ e, upQ f] (Suc 0, 5, 4) =
    [upQ a, upQ (b+1), upQ c, upQ d, upQ (e+1), upQ (f+1)]"
  by (subst faceQ) (simp_all add: patchVs_def addQ Let_def)

lemma rep6: "replicate 6 x = [x, x, x, x, x, x]"
  by (simp add: eval_nat_numeral)

lemma cq: "createQuadric = upQ 0" by (simp add: createQuadric_def upQ_def)

lemma s_qs: "foldl (addFaceQuadric patchVs) (replicate 6 createQuadric) patchFs =
    [upQ 2, upQ 5, upQ 2, upQ 2, upQ 2, upQ 2]"
  by (simp add: patchFs_def cq rep6 f1 f2 f3 f4 f5)

lemma s_vs: "map (vertexAt (vertices patchGeometry)) [0..<vertexCount patchGeometry] = patchVs"
  by (simp add: patchGeometry_def patchVs_def vertexAt_def upt_conv_Cons)

lemma s_fs: "map readTri (indices patchGeometry) = patchFs"
  by (simp add: patchGeometry_def patchFs_def readTri_def)

lemma s_es: "foldl addFaceEdges [] patchFs =
   [(0, 1), (1, 2), (0, 2), (0, 3), (1, 3), (1, 4), (2, 4), (3, 5), (1, 5), (4, 5)]"
  by (simp add: patchFs_def addFaceEdges_def addCollapseEdge_def)

lemma s_err: "evaluateQuadric (addQuadric (upQ k) (upQ l)) (Vec3 x y 0) = 0"
  by (simp add: evaluateQuadric_def addQuadric_def upQ_def)

lemma s_best: "findBestEdge patchSt0 = Some (0, (0, 1), Vec3 (1/2) 0 0)"
  by (simp add: findBestEdge_def patchSt0_def considerEdge_def Let_def patchVs_def vec3Add_def
      vec3Scale_def s_err)

lemma s_collapse: "cFaces (collapseEdge patchSt0 0 (Suc 0) pos) = [(0, 4, 2), (0, 3, 5), (0, 5, 4)]"
  by (simp add: collapseEdge_def patchSt0_def patchFs_def replaceVertex_def degenerate_def)

lemma s_loop: "cFaces (collapseLoop 4 patchSt0) = [(0, 4, 2), (0, 3, 5), (0, 5, 4)]"
proof -
  have "length (cFaces patchSt0) = 5" by (simp add: patchSt0_def patchFs_def)
  then have "collapseLoop 4 patchSt0 = collapseLoop 4 (collapseEdge patchSt0 0 (Suc 0) (Vec3 (1/2) 0 0))"
    by (simp add: collapseLoop.simps[of 4 patchSt0] s_best)
  also have "\<dots> = collapseEdge patchSt0 0 (Suc 0) (Vec3 (1/2) 0 0)"
    by (simp add: collapseLoop.simps[of 4 "collapseEdge patchSt0 0 (Suc 0) (Vec3 (1/2) 0 0)"] s_collapse)
  finally show ?thesis by (simp add: s_collapse)
qed

lemma s_st0:
  "\<lparr>cVertices = map (vertexAt (vertices patchGeometry)) [0..<vertexCount patchGeometry],
    cFaces = map readTri (indices patchGeometry),
    cQuadrics = foldl (addFaceQuadric (map (vertexAt (vertices patchGeometry)) [0..<vertexCount patchGeometry]))
                  (replicate (vertexCount patchGeometry) createQuadric) (map readTri (indices patchGeometry)),
    cEdges = foldl addFaceEdges [] (map readTri (indices patchGeometry)),
    removedVertices = {}\<rparr> = patchSt0"
proof -
  have vc: "vertexCount patchGeometry = 6" by (simp add: patchGeometry_def)
  show ?thesis by (simp only: s_vs s_fs s_es) (simp only: vc s_qs patchSt0_def)
qed

text \<open>
  C2 (as stated, refuted). On the flat patch of five triangles every candidate edge has
  error 0, so the first edge of the list, \<open>(0, 1)\<close>, is collapsed. It is shared by the
  first two triangles; both become degenerate and are spliced out, and the loop stops
  at three triangles.
\<close>

theorem decimate_ratio_zero_counterexample:
  "length (indices (geometry (mkMesh ''p'' True patchGeometry))) = 5 \<and>
   (case decimate (mkMesh ''p'' True patchGeometry)
           \<lparr>ratio = 0, mode = Collapse, symmetry = False, symmetryAxis = AxisX\<rparr> of
      Inl e \<Rightarrow> False
    | Inr m \<Rightarrow> length (indices (geometry m)) = 3)"
proof -
  have five: "length (indices patchGeometry) = 5" by (simp add: patchGeometry_def)
  have ok: "\<not> list_ex (\<lambda>(i0, i1, i2). \<not> i0 < vertexCount patchGeometry \<or>
               \<not> i1 < vertexCount patchGeometry \<or> \<not> i2 < vertexCount patchGeometry)
             (map readTri (indices patchGeometry))"
    by (simp add: s_fs patchFs_def) (simp add: patchGeometry_def)
  show ?thesis
    using ok
    by (simp add: decimate_def decimateCollapse_def Let_def mkMesh_sel five s_st0 s_loop
        toUint16Array_def)
qed

lemma patch_rounds: "collapseRounds 4 patchSt0 = 1"
proof -
  have "length (cFaces patchSt0) = 5" by (simp add: patchSt0_def patchFs_def)
  then have "collapseRounds 4 patchSt0 =
               1 + collapseRounds 4 (collapseEdge patchSt0 0 (Suc 0) (Vec3 (1/2) 0 0))"
    by (simp add: collapseRounds.simps[of 4 patchSt0] s_best)
  also have "collapseRounds 4 (collapseEdge patchSt0 0 (Suc 0) (Vec3 (1/2) 0 0)) = 0"
    by (simp add: collapseRounds.simps[of 4 "collapseEdge patchSt0 0 (Suc 0) (Vec3 (1/2) 0 0)"]
        s_collapse)
  finally show ?thesis by simp
qed

lemma patch_indices_ok:
  "\<not> list_ex (\<lambda>(i0, i1, i2). \<not> i0 < vertexCount patchGeometry \<or>
        \<not> i1 < vertexCount patchGeometry \<or> \<not> i2 < vertexCount patchGeometry)
      (map readTri (indices patchGeometry))"
  by (simp add: s_fs patchFs_def) (simp add: patchGeometry_def)

theorem decimate_collapse_terminates_witness:
  "decimateRounds (mkMesh ''p'' True patchGeometry) 0 = 1 \<and>
   vertexCount (geometry (mkMesh ''p'' True patchGeometry)) = 6 \<and>
   findBestEdge patchSt0 = Some (0, (0, 1), Vec3 (1/2) 0 0) \<and>
   removedVertices (collapseEdge patchSt0 0 1 (Vec3 (1/2) 0 0)) = {1}"
proof -
  have five: "length (indices patchGeometry) = 5" by (simp add: patchGeometry_def)
  have "decimateRounds (mkMesh ''p'' True patchGeometry) 0 = 1"
    using patch_indices_ok
    by (simp add: decimateRounds_def Let_def mkMesh_sel five s_st0 patch_rounds)
  moreover have "vertexCount (geometry (mkMesh ''p'' True patchGeometry)) = 6"
    by (simp add: mkMesh_sel patchGeometry_def)
  moreover from decimate_collapse_terminates[of "mkMesh ''p'' True patchGeometry" 0] s_best
  have "removedVertices (collapseEdge patchSt0 0 1 (Vec3 (1/2) 0 0)) =
          insert 1 (removedVertices patchSt0)"
    by blast
  then have "removedVertices (collapseEdge patchSt0 0 1 (Vec3 (1/2) 0 0)) = {1}"
    by (simp add: patchSt0_def)
  ultimately show ?thesis using s_best by simp
qed

theorem decimate_ratio_zero_at_most_four_witness:
  "list_all (\<lambda>(i0, i1, i2). unat i0 < 6 \<and> unat i1 < 6 \<and> unat i2 < 6)
     (indices (geometry (mkMesh ''p'' True patchGeometry))) \<and>
   length (indices (geometry (mkMesh ''p'' True patchGeometry))) = 5 \<and>
   (\<exists>m. decimate (mkMesh ''p'' True patchGeometry)
            \<lparr>ratio = 0, mode = Collapse, symmetry = False, symmetryAxis = AxisX\<rparr> = Inr m \<and>
        length (indices (geometry m)) \<le> 4)"
proof -
  have a: "list_all (\<lambda>(i0, i1, i2). unat i0 < vertexCount (geometry (mkMesh ''p'' True patchGeometry)) \<and>
             unat i1 < vertexCount (geometry (mkMesh ''p'' True patchGeometry)) \<and>
             unat i2 < vertexCount (geometry (mkMesh ''p'' True patchGeometry)))
             (indices (geometry (mkMesh ''p'' True patchGeometry)))"
    by (simp add: mkMesh_sel patchGeometry_def)
  have b: "length (indices (geometry (mkMesh ''p'' True patchGeometry))) > 4"
    by (simp add: mkMesh_sel patchGeometry_def)
  from decimate_ratio_zero_at_most_four[OF a b, of False AxisX] a b
  show ?thesis by (simp add: mkMesh_sel patchGeometry_def)
qed

subsection \<open>Preconditions that remove all work\<close>

text \<open>
  C5. Each of the five operators tests its precondition in its first statement and
  returns the mesh it was given, before any buffer is read: \<open>extrude\<close> on an empty face
  selection, \<open>array\<close> with \<open>count \<le> 1\<close>, \<open>decimate\<close> with \<open>ratio \<ge> 1\<close> (in every
  mode), \<open>bridgeEdgeLoops\<close> when one loop has fewer than three vertices, and
  \<open>knifeCut\<close> on a path of fewer than two points. Where the model of an operator can
  throw, the result is the \<open>Inr\<close> of the input mesh, so nothing is thrown.
\<close>

theorem noop_preconditions:
  "extrude mesh [] eopts = Inr mesh \<and>
   (count aopts \<le> 1 \<longrightarrow> array mesh aopts = mesh) \<and>
   (ratio dopts \<ge> 1 \<longrightarrow> decimate mesh dopts = Inr mesh) \<and>
   (length (loop1 bopts) < 3 \<or> length (loop2 bopts) < 3 \<longrightarrow> bridgeEdgeLoops mesh bopts = Inr mesh) \<and>
   (length (points kpath) < 2 \<longrightarrow> knifeCut mesh kpath = mesh)"
proof (intro conjI impI)
  show "extrude mesh [] eopts = Inr mesh" by (simp add: extrude_def)
next
  assume "count aopts \<le> 1"
  then show "array mesh aopts = mesh" by (simp add: array_def)
next
  assume "ratio dopts \<ge> 1"
  then show "decimate mesh dopts = Inr mesh" by (simp add: decimate_def)
next
  assume "length (loop1 bopts) < 3 \<or> length (loop2 bopts) < 3"
  then show "bridgeEdgeLoops mesh bopts = Inr mesh" by (simp add: bridgeEdgeLoops_def)
next
  assume "length (points kpath) < 2"
  then show "knifeCut mesh kpath = mesh" by (simp add: knifeCut_def)
qed

theorem noop_preconditions_witness:
  "extrude (mkMesh ''t'' True (triangleAt 0)) [] \<lparr>extrudeDistance = 1, useNormals = None\<rparr> =
     Inr (mkMesh ''t'' True (triangleAt 0)) \<and>
   array (mkMesh ''t'' True (triangleAt 0))
     \<lparr>count = 1, offset = Vec3 1 0 0, offsetType = Constant, mergeVertices = False,
      mergeThreshold = 0, startCap = None, endCap = None\<rparr> = mkMesh ''t'' True (triangleAt 0) \<and>
   decimate (mkMesh ''t'' True (triangleAt 0))
     \<lparr>ratio = 1, mode = Collapse, symmetry = False, symmetryAxis = AxisX\<rparr> =
     Inr (mkMesh ''t'' True (triangleAt 0)) \<and>
   bridgeEdgeLoops (mkMesh ''t'' True (triangleAt 0))
     \<lparr>loop1 = [0, 1], loop2 = [0, 1, 2], twist = 0, segments = 1, bridgeSmoothness = 0,
      blend = Linear\<rparr> = Inr (mkMesh ''t'' True (triangleAt 0)) \<and>
   knifeCut (mkMesh ''t'' True (triangleAt 0))
     \<lparr>points = [Vec3 0 0 0], throughCut = False, constrainAngle = False, angleIncrement = 0\<rparr> =
     mkMesh ''t'' True (triangleAt 0)"
  using noop_preconditions
    [where mesh = "mkMesh ''t'' True (triangleAt 0)"
       and eopts = "\<lparr>extrudeDistance = 1, useNormals = None\<rparr>"
       and aopts = "\<lparr>count = 1, offset = Vec3 1 0 0, offsetType = Constant, mergeVertices = False,
                     mergeThreshold = 0, startCap = None, endCap = None\<rparr>"
       and dopts = "\<lparr>ratio = 1, mode = Collapse, symmetry = False, symmetryAxis = AxisX\<rparr>"
       and bopts = "\<lparr>loop1 = [0, 1], loop2 = [0, 1, 2], twist = 0, segments = 1,
                     bridgeSmoothness = 0, blend = Linear\<rparr>"
       and kpath = "\<lparr>points = [Vec3 0 0 0], throughCut = False, constrainAngle = False,
                     angleIncrement = 0\<rparr>"]
  by simp

subsection \<open>Boolean difference of a mesh with itself\<close>






























lemma allPolygons_frontChain:
  "(case frontChain M of None \<Rightarrow> [] | Some t \<Rightarrow> allPolygons t) = concat (map snd M)"
  by (induction M) simp_all


lemma covers_empty: "coversL L {}"
  by (induction L) simp_all











subsection \<open>Cubes\<close>







subsection \<open>Two triangles that bound no solid\<close>













subsection \<open>A cube smaller than the tolerance\<close>














text \<open>
  C9. On a mesh whose geometry has \<open>vertexCount = 0\<close> the search loop of
  \<open>findClosestVertex\<close> does not run and the function returns the index 0. That index
  is not below \<open>vertexCount\<close>, so it names no vertex, and the result is a bare number:
  nothing in it tells the caller that no vertex was found.
\<close>

theorem findClosestVertex_empty:
  assumes "vertexCount (geometry mesh) = 0"
  shows "findClosestVertex mesh pt = 0
         \<and> \<not> findClosestVertex mesh pt < vertexCount (geometry mesh)"
  using assms by (simp add: findClosestVertex_def)

theorem findClosestVertex_empty_witness:
  "vertexCount (geometry (mkMesh ''e'' True emptyGeometry)) = 0 \<and>
   findClosestVertex (mkMesh ''e'' True emptyGeometry) (Vec3 1 2 3) = 0"
  using findClosestVertex_empty[of "mkMesh ''e'' True emptyGeometry" "Vec3 1 2 3"]
  by (simp add: mkMesh_def emptyGeometry_def)
end
